theory Spec2Isabelle
  imports Complex_Main
begin

section \<open>Values, arrays and errors\<close>

text \<open>
  The container of \<^verbatim>\<open>gigaanalysis/data.py\<close> stores double-precision numbers in a
  two-column numpy array. A stored number is modelled by \<open>fval\<close>: a finite value, the
  two infinities, or NaN. The sign of zero is not modelled (a division by zero takes
  the zero as positive), and complex input is outside the model. The predicates below
  are numpy's \<^verbatim>\<open>isfinite\<close>, \<^verbatim>\<open>isnan\<close> and the IEEE comparisons, which are all false
  on NaN.
\<close>

datatype fval = Fin real | PInf | NInf | NaN

text \<open>
  Rounding to binary64. \<open>py_round\<close> rounds a real to the nearest integer, a half to
  the even neighbour (it is also Python's \<^verbatim>\<open>round\<close>). \<open>exponent a\<close> is the binary
  exponent of a positive \<open>a\<close>, the \<open>e\<close> with \<open>2 ^ e \<le> a < 2 ^ (e + 1)\<close>, kept between
  \<open>-1022\<close> (below it the numbers are subnormal) and \<open>1024\<close> (too large for any
  double). \<open>rnd r\<close> is the double nearest to \<open>r\<close>: a 53-bit multiple of
  \<open>2 ^ (e - 52)\<close>, ties to the even multiple, or an infinity when that is \<open>2 ^ 1024\<close>
  or more. A Python literal such as \<^verbatim>\<open>0.1\<close> is \<open>rnd (1 / 10)\<close>.
\<close>

definition py_round :: "real \<Rightarrow> int" where
  "py_round r =
     (let f = \<lfloor>r\<rfloor>; frac = r - of_int f in
      if frac < 1 / 2 then f
      else if 1 / 2 < frac then f + 1
      else if even f then f else f + 1)"

function exp_up :: "real \<Rightarrow> int \<Rightarrow> int" where
  "exp_up a e = (if a < 2 \<or> 1024 \<le> e then e else exp_up (a / 2) (e + 1))"
  by pat_completeness auto
termination
  by (relation "measure (\<lambda>(a, e). nat (1024 - e))") auto

function exp_down :: "real \<Rightarrow> int \<Rightarrow> int" where
  "exp_down a e = (if 1 \<le> a \<or> e \<le> - 1022 then e else exp_down (a * 2) (e - 1))"
  by pat_completeness auto
termination
  by (relation "measure (\<lambda>(a, e). nat (e + 1022))") auto

declare exp_up.simps [simp del]

declare exp_down.simps [simp del]

definition exponent :: "real \<Rightarrow> int" where
  "exponent a = (if 1 \<le> a then exp_up a 0 else exp_down a 0)"

definition pow2 :: "int \<Rightarrow> real" where
  "pow2 k = (if 0 \<le> k then 2 ^ nat k else 1 / 2 ^ nat (- k))"

definition rnd :: "real \<Rightarrow> fval" where
  "rnd r =
     (if r = 0 then Fin 0
      else let a = \<bar>r\<bar>; e = exponent a in
           if 1024 \<le> e then (if 0 < r then PInf else NInf)
           else let q = pow2 (e - 52); m = py_round (a / q) in
                if e = 1023 \<and> m = 9007199254740992 then (if 0 < r then PInf else NInf)
                else Fin (if 0 < r then of_int m * q else - (of_int m * q)))"

fun isfinite :: "fval \<Rightarrow> bool" where
  "isfinite (Fin r) = True"
| "isfinite PInf = False"
| "isfinite NInf = False"
| "isfinite NaN = False"

fun isnan :: "fval \<Rightarrow> bool" where
  "isnan NaN = True"
| "isnan (Fin r) = False"
| "isnan PInf = False"
| "isnan NInf = False"

fun feq :: "fval \<Rightarrow> fval \<Rightarrow> bool" where
  "feq (Fin a) (Fin b) = (a = b)"
| "feq PInf PInf = True"
| "feq NInf NInf = True"
| "feq a b = False"

fun flt :: "fval \<Rightarrow> fval \<Rightarrow> bool" where
  "flt NaN b = False"
| "flt a NaN = False"
| "flt (Fin a) (Fin b) = (a < b)"
| "flt (Fin a) PInf = True"
| "flt (Fin a) NInf = False"
| "flt NInf (Fin b) = True"
| "flt NInf PInf = True"
| "flt NInf NInf = False"
| "flt PInf b = False"

definition fle :: "fval \<Rightarrow> fval \<Rightarrow> bool" where
  "fle a b = (flt a b \<or> feq a b)"

definition fgt :: "fval \<Rightarrow> fval \<Rightarrow> bool" where
  "fgt a b = flt b a"

text \<open>IEEE addition, rounded to the nearest double, and absolute value.\<close>

fun fadd :: "fval \<Rightarrow> fval \<Rightarrow> fval" where
  "fadd NaN b = NaN"
| "fadd a NaN = NaN"
| "fadd (Fin a) (Fin b) = rnd (a + b)"
| "fadd (Fin a) PInf = PInf"
| "fadd (Fin a) NInf = NInf"
| "fadd PInf NInf = NaN"
| "fadd PInf b = PInf"
| "fadd NInf PInf = NaN"
| "fadd NInf b = NInf"

fun fabs :: "fval \<Rightarrow> fval" where
  "fabs (Fin a) = Fin \<bar>a\<bar>"
| "fabs PInf = PInf"
| "fabs NInf = PInf"
| "fabs NaN = NaN"

text \<open>
  A numpy array: its shape and its elements in row-major order. A well-formed array
  holds as many elements as its shape says; every array numpy builds is well-formed.
\<close>

record ndarray =
  shape :: "nat list"
  flat :: "fval list"

definition ndim :: "ndarray \<Rightarrow> nat" where
  "ndim a = length (shape a)"

definition arr_size :: "ndarray \<Rightarrow> nat" where
  "arr_size a = prod_list (shape a)"

definition wf_array :: "ndarray \<Rightarrow> bool" where
  "wf_array a \<longleftrightarrow> length (flat a) = prod_list (shape a)"

definition array1 :: "fval list \<Rightarrow> ndarray" where
  "array1 vs = \<lparr>shape = [length vs], flat = vs\<rparr>"

definition scalar :: "fval \<Rightarrow> ndarray" where
  "scalar v = \<lparr>shape = [], flat = [v]\<rparr>"

text \<open>The rows of a two-column array, and the array of a list of rows.\<close>

fun pairs :: "'a list \<Rightarrow> ('a \<times> 'a) list" where
  "pairs (a # b # rest) = (a, b) # pairs rest"
| "pairs [a] = []"
| "pairs [] = []"

fun unpairs :: "('a \<times> 'a) list \<Rightarrow> 'a list" where
  "unpairs [] = []"
| "unpairs ((a, b) # rest) = a # b # unpairs rest"

definition matrix2 :: "(fval \<times> fval) list \<Rightarrow> ndarray" where
  "matrix2 rows = \<lparr>shape = [length rows, 2], flat = unpairs rows\<rparr>"

definition rows_of :: "ndarray \<Rightarrow> (fval \<times> fval) list" where
  "rows_of a = pairs (flat a)"

text \<open>
  Errors. Every \<^verbatim>\<open>raise\<close> of the source is a Python exception class with a message;
  the message is kept as a constructor with the values the source formats into it.
  Three further errors come from evaluating the source itself: the attribute
  \<^verbatim>\<open>szie\<close> (no array has it), the names \<^verbatim>\<open>neg\<close> and \<^verbatim>\<open>pos\<close> (the module does not
  define or import them) and the call \<^verbatim>\<open>self.values(k)\<close> of an array.
\<close>

datatype exc = ValueError | TypeError | IndexError | AttributeError | NameError
  | OverflowError | ZeroDivisionError

datatype msg =
    Split_values_not_1D "nat list"
  | Split_y_not_1D "nat list"
  | Not_two_column "nat list"
  | No_attribute string
  | Name_not_defined string
  | Not_same_x string
  | Cannot_be_operated string
  | Operand_wrong_dimension string "nat list"
  | Operand_wrong_length string nat nat
  | Only_one_index
  | Cannot_index_type
  | Index_one_dimension
  | Index_wrong_length nat nat
  | Ndarray_not_callable
  | No_item_assignment
  | Cannot_set_with_Data
  | Set_data_type
  | Set_data_size nat nat
  | Set_data_dimension "nat list"
  | Set_data_columns "nat list"
  | X_out_of_range fval fval
  | X_min_above_x_max
  | Min_x_below_data
  | Max_x_above_data
  | List_index_out_of_range
  | Interp_below_range
  | Interp_above_range
  | Numpy_error string

type_synonym error = "exc \<times> msg"

text \<open>
  The error kinds of the specification. The source raises \<^verbatim>\<open>ValueError\<close> for all
  three; they differ in the message.
\<close>

fun is_ShapeError :: "error \<Rightarrow> bool" where
  "is_ShapeError (ValueError, Split_values_not_1D s) = True"
| "is_ShapeError (ValueError, Split_y_not_1D s) = True"
| "is_ShapeError (ValueError, Not_two_column s) = True"
| "is_ShapeError (ValueError, Operand_wrong_dimension opn s) = True"
| "is_ShapeError (ValueError, Operand_wrong_length opn n m) = True"
| "is_ShapeError (ValueError, Set_data_size n m) = True"
| "is_ShapeError (ValueError, Set_data_dimension s) = True"
| "is_ShapeError (ValueError, Set_data_columns s) = True"
| "is_ShapeError e = False"

fun is_MismatchedAxisError :: "error \<Rightarrow> bool" where
  "is_MismatchedAxisError (ValueError, Not_same_x opn) = True"
| "is_MismatchedAxisError e = False"

fun is_RangeError :: "error \<Rightarrow> bool" where
  "is_RangeError (ValueError, X_out_of_range lo hi) = True"
| "is_RangeError (ValueError, X_min_above_x_max) = True"
| "is_RangeError (ValueError, Min_x_below_data) = True"
| "is_RangeError (ValueError, Max_x_above_data) = True"
| "is_RangeError e = False"

section \<open>The container and its constructor\<close>

text \<open>
  \<^verbatim>\<open>Data.__init__\<close> sets four attributes: \<^verbatim>\<open>values\<close>, the two-column array, and
  \<^verbatim>\<open>x = values[:, 0]\<close>, \<^verbatim>\<open>y = values[:, 1]\<close>, \<^verbatim>\<open>both = (x, y)\<close>.
\<close>

record data =
  data_values :: ndarray
  data_x :: "fval list"
  data_y :: "fval list"
  data_both :: "fval list \<times> fval list"

datatype pyvalue = PData data | PArray ndarray

datatype strip_sort = SS_False | SS_True | SS_strip | SS_sort

definition col0 :: "ndarray \<Rightarrow> fval list" where
  "col0 a = map fst (rows_of a)"

definition col1 :: "ndarray \<Rightarrow> fval list" where
  "col1 a = map snd (rows_of a)"

text \<open>\<^verbatim>\<open>np.concatenate([values[:, None], split_y[:, None]], axis=1)\<close> on two 1-D arrays
  of one length.\<close>

definition concatenate_columns :: "ndarray \<Rightarrow> ndarray \<Rightarrow> ndarray" where
  "concatenate_columns xa ya = matrix2 (zip (flat xa) (flat ya))"

text \<open>\<^verbatim>\<open>values[np.isfinite(values).any(axis=1)]\<close>: the rows in which some entry is
  finite.\<close>

definition any_finite_rows :: "ndarray \<Rightarrow> ndarray" where
  "any_finite_rows a =
     matrix2 (filter (\<lambda>(u, v). isfinite u \<or> isfinite v) (rows_of a))"

text \<open>
  \<^verbatim>\<open>np.argsort\<close> orders floats by \<open><\<close> with NaN last and returns the permutation.
  It is modelled by a stable insertion sort of the (key, position) pairs; numpy's
  default kind does not promise an order among equal keys.
\<close>

definition np_less :: "fval \<Rightarrow> fval \<Rightarrow> bool" where
  "np_less a b = (flt a b \<or> (isnan b \<and> \<not> isnan a))"

fun insert_key :: "(fval \<times> nat) \<Rightarrow> (fval \<times> nat) list \<Rightarrow> (fval \<times> nat) list" where
  "insert_key r [] = [r]"
| "insert_key r (s # rest) =
     (if np_less (fst s) (fst r) then s # insert_key r rest else r # s # rest)"

definition argsort :: "fval list \<Rightarrow> nat list" where
  "argsort ks = map snd (foldr insert_key (zip ks [0..<length ks]) [])"

text \<open>\<^verbatim>\<open>values[idx, :]\<close> for a list of row positions that are in range.\<close>

definition take_rows :: "ndarray \<Rightarrow> nat list \<Rightarrow> ndarray" where
  "take_rows a idx = matrix2 (map (\<lambda>i. rows_of a ! i) idx)"

definition split_mode :: "ndarray \<Rightarrow> ndarray option \<Rightarrow> error + ndarray" where
  "split_mode vals split_y =
     (case split_y of
        None \<Rightarrow> Inr vals
      | Some sy \<Rightarrow>
          if ndim vals \<noteq> 1 then Inl (ValueError, Split_values_not_1D (shape vals))
          else if ndim sy \<noteq> 1 then Inl (ValueError, Split_y_not_1D (shape sy))
          else if arr_size vals \<noteq> arr_size sy then Inl (AttributeError, No_attribute ''szie'')
          else Inr (concatenate_columns vals sy))"

definition check_two_column :: "ndarray \<Rightarrow> error + ndarray" where
  "check_two_column vals =
     (if ndim vals \<noteq> 2 then Inl (ValueError, Not_two_column (shape vals))
      else if shape vals ! 1 \<noteq> 2 then Inl (ValueError, Not_two_column (shape vals))
      else Inr vals)"

definition apply_strip_sort :: "strip_sort \<Rightarrow> ndarray \<Rightarrow> ndarray" where
  "apply_strip_sort ss vals =
     (case ss of
        SS_False \<Rightarrow> vals
      | SS_strip \<Rightarrow> any_finite_rows vals
      | SS_sort \<Rightarrow> take_rows vals (argsort (col0 vals))
      | SS_True \<Rightarrow>
          (let vals' = any_finite_rows vals in take_rows vals' (argsort (col0 vals'))))"

definition set_attributes :: "ndarray \<Rightarrow> data" where
  "set_attributes vals =
     \<lparr>data_values = vals, data_x = col0 vals, data_y = col1 vals,
      data_both = (col0 vals, col1 vals)\<rparr>"

text \<open>The constructor without its last step (\<^verbatim>\<open>interp_full\<close>, added below).\<close>

definition init_core :: "pyvalue \<Rightarrow> ndarray option \<Rightarrow> strip_sort \<Rightarrow> error + data" where
  "init_core v split_y ss =
     (let vals = (case v of PData d \<Rightarrow> data_values d | PArray a \<Rightarrow> a) in
      case split_mode vals split_y of
        Inl e \<Rightarrow> Inl e
      | Inr vals1 \<Rightarrow>
          (case check_two_column vals1 of
             Inl e \<Rightarrow> Inl e
           | Inr vals2 \<Rightarrow> Inr (set_attributes (apply_strip_sort ss vals2))))"

text \<open>\<^verbatim>\<open>Data(xs, ys)\<close> on two 1-D arrays, as every operation below builds its result.\<close>

definition Data2 :: "ndarray \<Rightarrow> ndarray \<Rightarrow> error + data" where
  "Data2 xa ya = init_core (PArray xa) (Some ya) SS_False"

definition Data1 :: "ndarray \<Rightarrow> error + data" where
  "Data1 a = init_core (PArray a) None SS_False"

section \<open>Indexing\<close>

text \<open>
  What can stand between the brackets of \<^verbatim>\<open>d[k]\<close>: an integer, a slice, a boolean
  or integer array (with its shape), a tuple, or an object \<^verbatim>\<open>np.asarray\<close> rejects.
\<close>

datatype index =
    IInt int
  | ISlice "int option" "int option" "int option"
  | IMask "nat list" "bool list"
  | IInts "nat list" "int list"
  | ITuple
  | IUncoercible

definition array_index_check :: "data \<Rightarrow> nat list \<Rightarrow> error + bool" where
  "array_index_check d s =
     (if prod_list s = 1 then Inr True
      else if length s \<noteq> 1 then Inl (IndexError, Index_one_dimension)
      else if prod_list s \<noteq> length (data_x d)
        then Inl (IndexError, Index_wrong_length (prod_list s) (length (data_x d)))
      else Inr False)"

fun index_check :: "data \<Rightarrow> index \<Rightarrow> error + bool" where
  "index_check d ITuple = Inl (IndexError, Only_one_index)"
| "index_check d (ISlice a b c) = Inr False"
| "index_check d IUncoercible = Inl (IndexError, Cannot_index_type)"
| "index_check d (IInt i) = Inr True"
| "index_check d (IMask s bs) = array_index_check d s"
| "index_check d (IInts s js) = array_index_check d s"

text \<open>Python's \<^verbatim>\<open>slice.indices\<close>: the positions a slice selects in a sequence of
  length \<open>n\<close>.\<close>

definition slice_positions :: "int option \<Rightarrow> int option \<Rightarrow> int option \<Rightarrow> nat \<Rightarrow> error + nat list" where
  "slice_positions a b c n =
     (let step = (case c of None \<Rightarrow> 1 | Some s \<Rightarrow> s) in
      if step = 0 then Inl (ValueError, Numpy_error ''slice step cannot be zero'')
      else
        let lower = (if step < 0 then -1 else 0);
            upper = (if step < 0 then int n - 1 else int n);
            start = (case a of
                       None \<Rightarrow> (if step < 0 then upper else lower)
                     | Some s \<Rightarrow> (if s < 0 then max (s + int n) lower else min s upper));
            stop = (case b of
                      None \<Rightarrow> (if step < 0 then lower else upper)
                    | Some s \<Rightarrow> (if s < 0 then max (s + int n) lower else min s upper));
            len = (if step > 0
                   then (if start < stop then (stop - start - 1) div step + 1 else 0)
                   else (if stop < start then (start - stop - 1) div (- step) + 1 else 0))
        in Inr (map (\<lambda>i. nat (start + int i * step)) [0..<nat len]))"

text \<open>An integer position, counted from the end when negative.\<close>

definition int_position :: "nat \<Rightarrow> int \<Rightarrow> error + nat" where
  "int_position n i =
     (let j = (if i < 0 then i + int n else i) in
      if 0 \<le> j \<and> j < int n then Inr (nat j)
      else Inl (IndexError, Numpy_error ''index out of bounds''))"

fun int_positions :: "nat \<Rightarrow> int list \<Rightarrow> error + nat list" where
  "int_positions n [] = Inr []"
| "int_positions n (i # rest) =
     (case int_position n i of
        Inl e \<Rightarrow> Inl e
      | Inr p \<Rightarrow> (case int_positions n rest of Inl e \<Rightarrow> Inl e | Inr ps \<Rightarrow> Inr (p # ps)))"

text \<open>The positions along the first axis that an index selects in an array of
  \<open>n\<close> rows (or \<open>n\<close> elements).\<close>

fun positions :: "nat \<Rightarrow> index \<Rightarrow> error + nat list" where
  "positions n (IInt i) =
     (case int_position n i of Inl e \<Rightarrow> Inl e | Inr p \<Rightarrow> Inr [p])"
| "positions n (ISlice a b c) = slice_positions a b c n"
| "positions n (IMask s bs) =
     (if s = [n] \<and> length bs = n then Inr (filter (\<lambda>i. bs ! i) [0..<n])
      else Inl (IndexError, Numpy_error ''boolean index did not match''))"
| "positions n (IInts s js) = int_positions n js"
| "positions n ITuple = Inl (IndexError, Numpy_error ''too many indices'')"
| "positions n IUncoercible = Inl (IndexError, Numpy_error ''not a valid index'')"

datatype getitem_result = Row ndarray | Rows data

text \<open>
  \<^verbatim>\<open>__getitem__\<close>. For a single item the source evaluates \<^verbatim>\<open>self.values(k)\<close>, a call
  of the array, which raises \<^verbatim>\<open>TypeError\<close>: an array is not callable.
\<close>

definition getitem :: "data \<Rightarrow> index \<Rightarrow> error + getitem_result" where
  "getitem d k =
     (case index_check d k of
        Inl e \<Rightarrow> Inl e
      | Inr True \<Rightarrow> Inl (TypeError, Ndarray_not_callable)
      | Inr False \<Rightarrow>
          (case positions (length (rows_of (data_values d))) k of
             Inl e \<Rightarrow> Inl e
           | Inr ps \<Rightarrow>
               (case Data1 (take_rows (data_values d) ps) of
                  Inl e \<Rightarrow> Inl e
                | Inr d' \<Rightarrow> Inr (Rows d'))))"

section \<open>Unary operators\<close>

text \<open>
  The names the module can call: its imports, its own definitions and the builtins it
  uses. \<^verbatim>\<open>__abs__\<close> calls the builtin \<^verbatim>\<open>abs\<close>; \<^verbatim>\<open>__neg__\<close> and \<^verbatim>\<open>__pos__\<close> call
  \<^verbatim>\<open>neg\<close> and \<^verbatim>\<open>pos\<close>, which are not among them.
\<close>

definition module_names :: "string list" where
  "module_names =
     [''np'', ''pd'', ''plt'', ''interp1d'', ''savgol_filter'', ''get_window'',
      ''find_peaks'', ''_pick_float_dtype'', ''_as_float_array'', ''Data'', ''sum_data'',
      ''mean'', ''save_arrays'', ''save_data'', ''save_dict'', ''gen_rand'',
      ''abs'', ''float'', ''int'', ''round'', ''len'', ''iter'', ''isinstance'', ''type'',
      ''list'', ''str'']"

fun fneg :: "fval \<Rightarrow> fval" where
  "fneg (Fin a) = Fin (- a)"
| "fneg PInf = NInf"
| "fneg NInf = PInf"
| "fneg NaN = NaN"

definition call_by_name :: "string \<Rightarrow> (fval \<Rightarrow> fval) \<Rightarrow> fval list \<Rightarrow> error + fval list" where
  "call_by_name name f ys =
     (if name \<in> set module_names then Inr (map f ys)
      else Inl (NameError, Name_not_defined name))"

definition abs_data :: "data \<Rightarrow> error + data" where
  "abs_data d =
     (case call_by_name ''abs'' fabs (data_y d) of
        Inl e \<Rightarrow> Inl e
      | Inr ys \<Rightarrow> Data2 (array1 (data_x d)) (array1 ys))"

definition neg_data :: "data \<Rightarrow> error + data" where
  "neg_data d =
     (case call_by_name ''neg'' fneg (data_y d) of
        Inl e \<Rightarrow> Inl e
      | Inr ys \<Rightarrow> Data2 (array1 (data_x d)) (array1 ys))"

definition pos_data :: "data \<Rightarrow> error + data" where
  "pos_data d =
     (case call_by_name ''pos'' (\<lambda>v. v) (data_y d) of
        Inl e \<Rightarrow> Inl e
      | Inr ys \<Rightarrow> Data2 (array1 (data_x d)) (array1 ys))"

section \<open>Binary operators\<close>

datatype operand = OData data | OArray ndarray | OUncoercible

text \<open>\<^verbatim>\<open>np.array_equal\<close> on two 1-D arrays: equal length and equal elements, where NaN
  equals nothing.\<close>

definition array_equal :: "fval list \<Rightarrow> fval list \<Rightarrow> bool" where
  "array_equal us vs = (length us = length vs \<and> list_all2 feq us vs)"

definition maths_check :: "data \<Rightarrow> operand \<Rightarrow> string \<Rightarrow> error + ndarray" where
  "maths_check d other operation =
     (case other of
        OData od \<Rightarrow>
          if array_equal (data_x d) (data_x od) then Inr (array1 (data_y od))
          else Inl (ValueError, Not_same_x operation)
      | OUncoercible \<Rightarrow> Inl (TypeError, Cannot_be_operated operation)
      | OArray a \<Rightarrow>
          if arr_size a = 1 then Inr a
          else if ndim a \<noteq> 1 then Inl (ValueError, Operand_wrong_dimension operation (shape a))
          else if arr_size a \<noteq> length (data_x d)
            then Inl (ValueError, Operand_wrong_length operation (arr_size a) (length (data_x d)))
          else Inr a)"

text \<open>
  An elementwise numpy operation between the 1-D array \<open>ys\<close> and an operand that
  \<open>maths_check\<close> let through: a one-element array is broadcast (and lends its extra
  leading axes to the result), a 1-D array of the same length is taken element by
  element.
\<close>

definition np_elementwise :: "(fval \<Rightarrow> fval \<Rightarrow> fval) \<Rightarrow> fval list \<Rightarrow> ndarray \<Rightarrow> ndarray" where
  "np_elementwise f ys other =
     (if arr_size other = 1
      then \<lparr>shape = (if ndim other \<le> 1 then [length ys] else butlast (shape other) @ [length ys]),
            flat = map (\<lambda>v. f v (flat other ! 0)) ys\<rparr>
      else \<lparr>shape = [length ys], flat = map2 f ys (flat other)\<rparr>)"

text \<open>\<^verbatim>\<open>Data(self.x, self.y op other)\<close> and the reflected \<^verbatim>\<open>Data(self.x, other op self.y)\<close>,
  for the elementwise function \<open>f\<close> of the operator.\<close>

definition binop :: "(fval \<Rightarrow> fval \<Rightarrow> fval) \<Rightarrow> string \<Rightarrow> data \<Rightarrow> operand \<Rightarrow> error + data" where
  "binop f operation d other =
     (case maths_check d other operation of
        Inl e \<Rightarrow> Inl e
      | Inr oth \<Rightarrow> Data2 (array1 (data_x d)) (np_elementwise f (data_y d) oth))"

definition rbinop :: "(fval \<Rightarrow> fval \<Rightarrow> fval) \<Rightarrow> string \<Rightarrow> data \<Rightarrow> operand \<Rightarrow> error + data" where
  "rbinop f operation d other = binop (\<lambda>u v. f v u) operation d other"

text \<open>IEEE subtraction, multiplication and division, rounded to the nearest double, and
  floor and ceiling, which are exact. A division by zero gives an infinity or NaN
  (numpy warns and goes on).\<close>

definition fsub :: "fval \<Rightarrow> fval \<Rightarrow> fval" where
  "fsub a b = fadd a (fneg b)"

fun fmul :: "fval \<Rightarrow> fval \<Rightarrow> fval" where
  "fmul NaN b = NaN"
| "fmul a NaN = NaN"
| "fmul (Fin a) (Fin b) = rnd (a * b)"
| "fmul (Fin a) PInf = (if a = 0 then NaN else if 0 < a then PInf else NInf)"
| "fmul (Fin a) NInf = (if a = 0 then NaN else if 0 < a then NInf else PInf)"
| "fmul PInf (Fin b) = (if b = 0 then NaN else if 0 < b then PInf else NInf)"
| "fmul NInf (Fin b) = (if b = 0 then NaN else if 0 < b then NInf else PInf)"
| "fmul PInf PInf = PInf"
| "fmul PInf NInf = NInf"
| "fmul NInf PInf = NInf"
| "fmul NInf NInf = PInf"

fun fdiv :: "fval \<Rightarrow> fval \<Rightarrow> fval" where
  "fdiv NaN b = NaN"
| "fdiv a NaN = NaN"
| "fdiv (Fin a) (Fin b) =
     (if b = 0 then (if a = 0 then NaN else if 0 < a then PInf else NInf) else rnd (a / b))"
| "fdiv (Fin a) PInf = Fin 0"
| "fdiv (Fin a) NInf = Fin 0"
| "fdiv PInf (Fin b) = (if 0 \<le> b then PInf else NInf)"
| "fdiv NInf (Fin b) = (if 0 \<le> b then NInf else PInf)"
| "fdiv PInf b = NaN"
| "fdiv NInf b = NaN"

fun fceil :: "fval \<Rightarrow> fval" where
  "fceil (Fin a) = Fin (of_int \<lceil>a\<rceil>)"
| "fceil v = v"

fun ffloor :: "fval \<Rightarrow> fval" where
  "ffloor (Fin a) = Fin (of_int \<lfloor>a\<rfloor>)"
| "ffloor v = v"

text \<open>The operators of the class. \<^verbatim>\<open>%\<close>, \<^verbatim>\<open>//\<close> and \<^verbatim>\<open>**\<close> and the reflected
  forms are \<open>binop\<close> and \<open>rbinop\<close> at numpy's elementwise function and the operation
  name of the source.\<close>

definition add_data :: "data \<Rightarrow> operand \<Rightarrow> error + data" where
  "add_data = binop fadd ''added''"

definition radd_data :: "data \<Rightarrow> operand \<Rightarrow> error + data" where
  "radd_data = rbinop fadd ''added''"

definition sub_data :: "data \<Rightarrow> operand \<Rightarrow> error + data" where
  "sub_data = binop fsub ''subtracted''"

definition rsub_data :: "data \<Rightarrow> operand \<Rightarrow> error + data" where
  "rsub_data = rbinop fsub ''subtracted''"

definition mul_data :: "data \<Rightarrow> operand \<Rightarrow> error + data" where
  "mul_data = binop fmul ''multiplied''"

definition rmul_data :: "data \<Rightarrow> operand \<Rightarrow> error + data" where
  "rmul_data = rbinop fmul ''multiplied''"

definition truediv_data :: "data \<Rightarrow> operand \<Rightarrow> error + data" where
  "truediv_data = binop fdiv ''divided''"

definition rtruediv_data :: "data \<Rightarrow> operand \<Rightarrow> error + data" where
  "rtruediv_data = rbinop fdiv ''divide by''"

section \<open>Sum and mean of a list of containers\<close>

text \<open>
  \<^verbatim>\<open>total += data_set.y\<close>: the class has no \<^verbatim>\<open>__iadd__\<close>, so this is
  \<^verbatim>\<open>total = total.__add__(data_set.y)\<close>, and the operand is the 1-D array
  \<^verbatim>\<open>data_set.y\<close>, not the container.
\<close>

fun sum_loop :: "data \<Rightarrow> data list \<Rightarrow> error + data" where
  "sum_loop tot [] = Inr tot"
| "sum_loop tot (data_set # rest) =
     (case add_data tot (OArray (array1 (data_y data_set))) of
        Inl e \<Rightarrow> Inl e
      | Inr tot' \<Rightarrow> sum_loop tot' rest)"

definition sum_data :: "data list \<Rightarrow> error + data" where
  "sum_data data_list =
     (case data_list of
        [] \<Rightarrow> Inl (IndexError, List_index_out_of_range)
      | first # rest \<Rightarrow> sum_loop first rest)"

definition mean :: "data list \<Rightarrow> error + data" where
  "mean data_list =
     (case sum_data data_list of
        Inl e \<Rightarrow> Inl e
      | Inr tot \<Rightarrow> truediv_data tot (OArray (scalar (Fin (real (length data_list))))))"

section \<open>Minimum, maximum, cutting, stripping and sorting\<close>

text \<open>\<^verbatim>\<open>np.min\<close> and \<^verbatim>\<open>np.max\<close>: NaN if any element is NaN, \<^verbatim>\<open>ValueError\<close> on an
  empty array.\<close>

definition fmin :: "fval \<Rightarrow> fval \<Rightarrow> fval" where
  "fmin a b = (if isnan a \<or> isnan b then NaN else if flt b a then b else a)"

definition fmax :: "fval \<Rightarrow> fval \<Rightarrow> fval" where
  "fmax a b = (if isnan a \<or> isnan b then NaN else if flt a b then b else a)"

definition np_min :: "fval list \<Rightarrow> error + fval" where
  "np_min vs =
     (case vs of
        [] \<Rightarrow> Inl (ValueError, Numpy_error ''zero-size array to reduction operation'')
      | v # rest \<Rightarrow> Inr (foldl fmin v rest))"

definition np_max :: "fval list \<Rightarrow> error + fval" where
  "np_max vs =
     (case vs of
        [] \<Rightarrow> Inl (ValueError, Numpy_error ''zero-size array to reduction operation'')
      | v # rest \<Rightarrow> Inr (foldl fmax v rest))"



text \<open>
  \<^verbatim>\<open>np.searchsorted\<close> is a binary search: \<open>go_right\<close> is \<open>\<lambda>e. e < key\<close> for
  \<^verbatim>\<open>side='left'\<close> and \<open>\<lambda>e. \<not> key < e\<close> for \<^verbatim>\<open>side='right'\<close>, in numpy's order of
  floats.
\<close>

function binsearch :: "(fval \<Rightarrow> bool) \<Rightarrow> fval list \<Rightarrow> nat \<Rightarrow> nat \<Rightarrow> nat" where
  "binsearch go_right vs lo hi =
     (if lo < hi
      then (let mid = lo + (hi - lo) div 2 in
            if go_right (vs ! mid) then binsearch go_right vs (mid + 1) hi
            else binsearch go_right vs lo mid)
      else lo)"
  by pat_completeness auto
termination
  by (relation "measure (\<lambda>(g, vs, lo, hi). hi - lo)") auto

declare binsearch.simps [simp del]

definition searchsorted_left :: "fval list \<Rightarrow> fval \<Rightarrow> nat" where
  "searchsorted_left vs key = binsearch (\<lambda>e. np_less e key) vs 0 (length vs)"

definition searchsorted_right :: "fval list \<Rightarrow> fval \<Rightarrow> nat" where
  "searchsorted_right vs key = binsearch (\<lambda>e. \<not> np_less key e) vs 0 (length vs)"

text \<open>\<^verbatim>\<open>values[i:j, :]\<close> for \<open>i\<close> and \<open>j\<close> between 0 and the number of rows.\<close>

definition row_slice :: "nat \<Rightarrow> nat \<Rightarrow> ndarray \<Rightarrow> ndarray" where
  "row_slice i j a = matrix2 (drop i (take j (rows_of a)))"

definition x_cut :: "data \<Rightarrow> fval \<Rightarrow> fval \<Rightarrow> error + data" where
  "x_cut d x_min x_max =
     (if fgt x_min x_max then Inl (ValueError, X_min_above_x_max)
      else Data1 (row_slice (searchsorted_left (data_x d) x_min)
                            (searchsorted_right (data_x d) x_max) (data_values d)))"

definition strip_nan :: "data \<Rightarrow> error + data" where
  "strip_nan d = Data1 (any_finite_rows (data_values d))"

definition sort_data :: "data \<Rightarrow> error + data" where
  "sort_data d = Data1 (take_rows (data_values d) (argsort (data_x d)))"

section \<open>Interpolation\<close>

text \<open>
  \<^verbatim>\<open>scipy.interpolate.interp1d\<close> is a collaborator of the class, modelled from its
  source at the default \<^verbatim>\<open>kind='linear'\<close>. The samples are ordered by \<open>x\<close> with a
  stable sort unless \<^verbatim>\<open>assume_sorted\<close> is set. With a fill value other than
  \<^verbatim>\<open>'extrapolate'\<close>, a query below the first or above the last sample raises if
  \<^verbatim>\<open>bounds_error\<close> is set (the default) and takes the fill value otherwise (NaN by
  default; one value, or a pair for below and above), and every other query is
  evaluated by \<^verbatim>\<open>np.interp\<close>. With \<^verbatim>\<open>'extrapolate'\<close> every query is evaluated on
  the line through the two samples that \<^verbatim>\<open>searchsorted\<close> finds for it.

  \<open>kwargs\<close> are the keyword arguments a caller can pass on: the six that
  \<^verbatim>\<open>interp1d\<close> knows, and the names of any others (it rejects them with
  \<^verbatim>\<open>TypeError\<close>). A \<open>kind\<close> other than linear is not modelled: it comes with its
  name and with the function from samples and queries to results that scipy computes
  for it under the other keyword arguments, taken as given.
\<close>

datatype fill_value = Fill_value fval | Fill_below_above fval fval | Fill_extrapolate

datatype kind =
    Linear
  | Other_kind string "fval list \<Rightarrow> fval list \<Rightarrow> fval list \<Rightarrow> error + fval list"

record kwargs =
  kw_kind :: "kind option"
  kw_axis :: "int option"
  kw_copy :: "bool option"
  kw_bounds_error :: "bool option"
  kw_fill_value :: "fill_value option"
  kw_assume_sorted :: "bool option"
  kw_other :: "string list"

definition no_kwargs :: kwargs where
  "no_kwargs =
     \<lparr>kw_kind = None, kw_axis = None, kw_copy = None, kw_bounds_error = None,
      kw_fill_value = None, kw_assume_sorted = None, kw_other = []\<rparr>"

text \<open>
  \<^verbatim>\<open>np.interp\<close> at a query \<open>q\<close> that is not below the first sample: the segment is
  the last one whose left end is \<open>\<le> q\<close>; a query on the last sample or on the left end
  of its segment takes that sample's \<open>y\<close>; otherwise the value is on the line from the
  left end and, if that is NaN, on the line from the right end. A single sample gives
  its \<open>y\<close> to every query, and a NaN query gives NaN otherwise.
\<close>

definition on_line :: "fval \<Rightarrow> fval \<Rightarrow> fval \<Rightarrow> fval \<Rightarrow> fval" where
  "on_line slope q x0 y0 = fadd (fmul slope (fsub q x0)) y0"

fun np_interp_walk :: "(fval \<times> fval) list \<Rightarrow> fval \<Rightarrow> fval" where
  "np_interp_walk [] q = NaN"
| "np_interp_walk [(x0, y0)] q = y0"
| "np_interp_walk ((x0, y0) # (x1, y1) # rest) q =
     (if fle x1 q then np_interp_walk ((x1, y1) # rest) q
      else if feq x0 q then y0
      else let slope = fdiv (fsub y1 y0) (fsub x1 x0);
               r = on_line slope q x0 y0
           in if isnan r
              then (let r' = on_line slope q x1 y1 in
                    if isnan r' \<and> feq y0 y1 then y0 else r')
              else r)"

definition np_interp :: "(fval \<times> fval) list \<Rightarrow> fval \<Rightarrow> fval" where
  "np_interp pts q =
     (if length pts = 1 then snd (hd pts)
      else if isnan q then q
      else np_interp_walk pts q)"

text \<open>
  The evaluation scipy uses with \<^verbatim>\<open>'extrapolate'\<close>: the right end is the first
  sample \<open>\<ge> q\<close> after the first one, or the last sample.
\<close>

fun linear_at :: "(fval \<times> fval) list \<Rightarrow> fval \<Rightarrow> fval" where
  "linear_at [] q = NaN"
| "linear_at [(x0, y0)] q = on_line (fdiv (fsub y0 y0) (fsub x0 x0)) q x0 y0"
| "linear_at ((x0, y0) # (x1, y1) # rest) q =
     (if rest = [] \<or> \<not> flt x1 q
      then on_line (fdiv (fsub y1 y0) (fsub x1 x0)) q x0 y0
      else linear_at ((x1, y1) # rest) q)"

text \<open>\<^verbatim>\<open>np.argsort(x, kind="mergesort")\<close> is stable, like \<open>argsort\<close>.\<close>

definition sorted_samples :: "fval list \<Rightarrow> fval list \<Rightarrow> (fval \<times> fval) list" where
  "sorted_samples xs ys = map (\<lambda>i. (xs ! i, ys ! i)) (argsort xs)"

definition fill_pair :: "fill_value option \<Rightarrow> fval \<times> fval" where
  "fill_pair fv =
     (case fv of
        Some (Fill_value v) \<Rightarrow> (v, v)
      | Some (Fill_below_above b a) \<Rightarrow> (b, a)
      | _ \<Rightarrow> (NaN, NaN))"

definition interp1d_linear :: "fval list \<Rightarrow> fval list \<Rightarrow> kwargs \<Rightarrow> fval list \<Rightarrow> error + fval list" where
  "interp1d_linear xs ys kw x_new =
     (if kw_axis kw \<notin> {None, Some 0, Some (- 1)}
        then Inl (IndexError, Numpy_error ''tuple index out of range'')
      else if length xs \<noteq> length ys
        then Inl (ValueError, Numpy_error ''x and y arrays must be equal in length'')
      else if xs = []
        then Inl (ValueError, Numpy_error ''x and y arrays must have at least 1 entries'')
      else
        let pts = (if kw_assume_sorted kw = Some True then zip xs ys else sorted_samples xs ys);
            below = (\<lambda>q. flt q (fst (hd pts)));
            above = (\<lambda>q. flt (fst (last pts)) q)
        in if kw_fill_value kw = Some Fill_extrapolate
           then (if kw_bounds_error kw = Some True
                 then Inl (ValueError, Numpy_error ''cannot extrapolate and raise'')
                 else Inr (map (linear_at pts) x_new))
           else if kw_bounds_error kw \<noteq> Some False \<and> (\<exists>q \<in> set x_new. below q)
             then Inl (ValueError, Interp_below_range)
           else if kw_bounds_error kw \<noteq> Some False \<and> (\<exists>q \<in> set x_new. above q)
             then Inl (ValueError, Interp_above_range)
           else Inr (map (\<lambda>q. if below q then fst (fill_pair (kw_fill_value kw))
                              else if above q then snd (fill_pair (kw_fill_value kw))
                              else np_interp pts q) x_new))"

definition interp1d :: "fval list \<Rightarrow> fval list \<Rightarrow> kwargs \<Rightarrow> fval list \<Rightarrow> error + fval list" where
  "interp1d xs ys kw x_new =
     (if kw_other kw \<noteq> [] then Inl (TypeError, Numpy_error ''unexpected keyword argument'')
      else case kw_kind kw of
             Some (Other_kind name evaluate) \<Rightarrow> evaluate xs ys x_new
           | _ \<Rightarrow> interp1d_linear xs ys kw x_new)"

subsection \<open>Point lookup\<close>




text \<open>The interpolation of the three methods that fix its options:
  \<^verbatim>\<open>interp1d(self.x, self.y, bounds_error=False, fill_value=(self.y.min(), self.y.max()))\<close>.\<close>

definition interp_min_max_fill :: "data \<Rightarrow> fval list \<Rightarrow> error + fval list" where
  "interp_min_max_fill d x_new =
     (case np_min (data_y d) of
        Inl e \<Rightarrow> Inl e
      | Inr y_lo \<Rightarrow>
          (case np_max (data_y d) of
             Inl e \<Rightarrow> Inl e
           | Inr y_hi \<Rightarrow>
               interp1d (data_x d) (data_y d)
                 (no_kwargs\<lparr>kw_bounds_error := Some False,
                    kw_fill_value := Some (Fill_below_above y_lo y_hi)\<rparr>) x_new))"


subsection \<open>Resampling\<close>

text \<open>
  \<^verbatim>\<open>np.arange(start, stop, step)\<close> on Python floats. The length is the ceiling of
  \<open>(stop - start) / step\<close>, computed in doubles; a zero step raises
  \<^verbatim>\<open>ZeroDivisionError\<close>; a quotient that is zero although \<open>stop - start\<close> is not
  (an infinite step, an underflow) gives one point when it is not negative. The first
  two points are \<open>start\<close> and \<open>start + step\<close>, the others \<open>start + i * delta\<close> for the
  difference \<open>delta\<close> of the first two.
\<close>

definition arange :: "fval \<Rightarrow> fval \<Rightarrow> fval \<Rightarrow> error + fval list" where
  "arange start stop step =
     (let span = fsub stop start in
      if step = Fin 0 then Inl (ZeroDivisionError, Numpy_error ''float division by zero'')
      else
        let v = fdiv span step in
        if v = Fin 0 \<and> span \<noteq> Fin 0
        then (if flt span (Fin 0) \<noteq> flt step (Fin 0) then Inr [] else Inr [start])
        else (case v of
                NaN \<Rightarrow> Inl (ValueError, Numpy_error ''arange: cannot compute length'')
              | PInf \<Rightarrow> Inl (OverflowError, Numpy_error ''arange: overflow while computing length'')
              | NInf \<Rightarrow> Inl (OverflowError, Numpy_error ''arange: overflow while computing length'')
              | Fin r \<Rightarrow>
                  let len = nat \<lceil>r\<rceil>; second = fadd start step; delta = fsub second start in
                  if len = 0 then Inr []
                  else if len = 1 then Inr [start]
                  else Inr (start # second #
                            map (\<lambda>i. fadd start (fmul (Fin (real i)) delta)) [2..<len])))"

text \<open>\<^verbatim>\<open>int(round(v))\<close>: Python's \<^verbatim>\<open>round\<close> rounds a half to the even neighbour
  (\<open>py_round\<close>), and the conversion raises on NaN and on an infinity.\<close>

fun int_round :: "fval \<Rightarrow> error + int" where
  "int_round (Fin r) = Inr (py_round r)"
| "int_round NaN = Inl (ValueError, Numpy_error ''cannot convert float NaN to integer'')"
| "int_round v = Inl (OverflowError, Numpy_error ''cannot convert float infinity to integer'')"

text \<open>
  \<^verbatim>\<open>np.linspace(start, stop, num)\<close>: the points \<open>i * step + start\<close> for
  \<open>step = (stop - start) / (num - 1)\<close> (or \<open>(i / (num - 1)) * (stop - start) + start\<close>
  when the step is zero), the last of two or more points set to \<open>stop\<close>; a single
  point is \<open>0 * (stop - start) + start\<close>.
\<close>

definition linspace_point :: "fval \<Rightarrow> fval \<Rightarrow> int \<Rightarrow> nat \<Rightarrow> fval" where
  "linspace_point start stop num i =
     (let span = fsub stop start; divisor = Fin (real_of_int (num - 1)) in
      if num - 1 \<le> 0 then fadd (fmul (Fin (real i)) span) start
      else if fdiv span divisor = Fin 0
        then fadd (fmul (fdiv (Fin (real i)) divisor) span) start
      else fadd (fmul (Fin (real i)) (fdiv span divisor)) start)"

definition linspace :: "fval \<Rightarrow> fval \<Rightarrow> int \<Rightarrow> error + fval list" where
  "linspace start stop num =
     (if num < 0 then Inl (ValueError, Numpy_error ''number of samples must be non-negative'')
      else if num \<le> 1 then Inr (map (linspace_point start stop num) [0..<nat num])
      else Inr (map (linspace_point start stop num) [0..<nat (num - 1)] @ [stop]))"

text \<open>The grid of \<^verbatim>\<open>interp_full\<close> and \<^verbatim>\<open>to_even\<close>:
  \<^verbatim>\<open>x_start = np.ceil(self.x.min()/step_size)*step_size\<close>,
  \<^verbatim>\<open>x_stop = np.floor(self.x.max()/step_size)*step_size\<close> and
  \<^verbatim>\<open>np.linspace(x_start, x_stop, int(round((x_stop - x_start)/step_size)) + 1)\<close>.\<close>

definition x_start :: "fval \<Rightarrow> fval \<Rightarrow> fval" where
  "x_start lo step_size = fmul (fceil (fdiv lo step_size)) step_size"

definition x_stop :: "fval \<Rightarrow> fval \<Rightarrow> fval" where
  "x_stop hi step_size = fmul (ffloor (fdiv hi step_size)) step_size"

definition even_grid :: "data \<Rightarrow> fval \<Rightarrow> error + fval list" where
  "even_grid d step_size =
     (case np_min (data_x d) of
        Inl e \<Rightarrow> Inl e
      | Inr lo \<Rightarrow>
          (case np_max (data_x d) of
             Inl e \<Rightarrow> Inl e
           | Inr hi \<Rightarrow>
               (case int_round (fdiv (fsub (x_stop hi step_size) (x_start lo step_size))
                                  step_size) of
                  Inl e \<Rightarrow> Inl e
                | Inr r \<Rightarrow> linspace (x_start lo step_size) (x_stop hi step_size) (r + 1))))"

definition interp_full :: "data \<Rightarrow> fval \<Rightarrow> kwargs \<Rightarrow> error + data" where
  "interp_full d step_size kw =
     (case even_grid d step_size of
        Inl e \<Rightarrow> Inl e
      | Inr x_vals \<Rightarrow>
          (case interp1d (data_x d) (data_y d) kw x_vals of
             Inl e \<Rightarrow> Inl e
           | Inr y_vals \<Rightarrow> Data2 (array1 x_vals) (array1 y_vals)))"

text \<open>\<^verbatim>\<open>to_even\<close> and \<^verbatim>\<open>to_range\<close> re-initialise \<^verbatim>\<open>self\<close> and return it: the result is
  the new state of the object, which an error leaves as it was.\<close>

definition to_even :: "data \<Rightarrow> fval \<Rightarrow> kwargs \<Rightarrow> error + data" where
  "to_even self step_size kw =
     (case even_grid self step_size of
        Inl e \<Rightarrow> Inl e
      | Inr x_vals \<Rightarrow>
          (case interp1d (data_x self) (data_y self) kw x_vals of
             Inl e \<Rightarrow> Inl e
           | Inr y_vals \<Rightarrow> Data2 (array1 x_vals) (array1 y_vals)))"

definition interp_number :: "data \<Rightarrow> int \<Rightarrow> kwargs \<Rightarrow> error + data" where
  "interp_number d point_number kw =
     (case np_min (data_x d) of
        Inl e \<Rightarrow> Inl e
      | Inr lo \<Rightarrow>
          (case np_max (data_x d) of
             Inl e \<Rightarrow> Inl e
           | Inr hi \<Rightarrow>
               (case linspace lo hi point_number of
                  Inl e \<Rightarrow> Inl e
                | Inr x_vals \<Rightarrow>
                    (case interp1d (data_x d) (data_y d) kw x_vals of
                       Inl e \<Rightarrow> Inl e
                     | Inr y_vals \<Rightarrow> Data2 (array1 x_vals) (array1 y_vals)))))"

definition interp_range :: "data \<Rightarrow> fval \<Rightarrow> fval \<Rightarrow> fval \<Rightarrow> kwargs \<Rightarrow> error + data" where
  "interp_range d min_x_arg max_x_arg step_size kw =
     (case np_min (data_x d) of
        Inl e \<Rightarrow> Inl e
      | Inr lo \<Rightarrow>
          if fgt lo min_x_arg then Inl (ValueError, Min_x_below_data)
          else (case np_max (data_x d) of
                  Inl e \<Rightarrow> Inl e
                | Inr hi \<Rightarrow>
                    if flt hi max_x_arg then Inl (ValueError, Max_x_above_data)
                    else (case arange min_x_arg max_x_arg step_size of
                            Inl e \<Rightarrow> Inl e
                          | Inr x_vals \<Rightarrow>
                              (case interp_min_max_fill d x_vals of
                                 Inl e \<Rightarrow> Inl e
                               | Inr y_vals \<Rightarrow> Data2 (array1 x_vals) (array1 y_vals)))))"

definition to_range :: "data \<Rightarrow> fval \<Rightarrow> fval \<Rightarrow> fval \<Rightarrow> kwargs \<Rightarrow> error + data" where
  "to_range self min_x_arg max_x_arg step_size kw =
     (case np_min (data_x self) of
        Inl e \<Rightarrow> Inl e
      | Inr lo \<Rightarrow>
          if fgt lo min_x_arg then Inl (ValueError, Min_x_below_data)
          else (case np_max (data_x self) of
                  Inl e \<Rightarrow> Inl e
                | Inr hi \<Rightarrow>
                    if flt hi max_x_arg then Inl (ValueError, Max_x_above_data)
                    else (case arange min_x_arg max_x_arg step_size of
                            Inl e \<Rightarrow> Inl e
                          | Inr x_vals \<Rightarrow>
                              (case interp_min_max_fill self x_vals of
                                 Inl e \<Rightarrow> Inl e
                               | Inr y_vals \<Rightarrow> Data2 (array1 x_vals) (array1 y_vals)))))"

subsection \<open>The full constructor\<close>

text \<open>\<^verbatim>\<open>if interp_full:\<close> is Python's truth of a float: every value but zero.\<close>

fun truthy :: "fval \<Rightarrow> bool" where
  "truthy (Fin r) = (r \<noteq> 0)"
| "truthy v = True"

definition Data_init :: "pyvalue \<Rightarrow> ndarray option \<Rightarrow> strip_sort \<Rightarrow> fval option \<Rightarrow> error + data" where
  "Data_init v split_y ss interp_full_arg =
     (case init_core v split_y ss of
        Inl e \<Rightarrow> Inl e
      | Inr self \<Rightarrow>
          (case interp_full_arg of
             None \<Rightarrow> Inr self
           | Some step_size \<Rightarrow>
               if truthy step_size then to_even self step_size no_kwargs else Inr self))"

section \<open>Setters and function application\<close>

text \<open>
  The value of an assignment: a container, a numpy array, or another array-like (a
  list, a number), given as the array \<^verbatim>\<open>np.asarray\<close> makes of it.
\<close>

datatype setvalue = SData data | SArray ndarray | SArrayLike ndarray

text \<open>
  numpy's assignment \<^verbatim>\<open>target[k] = v\<close>. At an integer position the value must be a
  number: a zero-dimensional array, or a numpy array of one element (which numpy
  converts); any other sequence raises. At the other indices \<open>v\<close> is broadcast to the
  selected positions: leading axes of length one are dropped, a single element is
  repeated.
\<close>

definition broadcast_to :: "nat \<Rightarrow> ndarray \<Rightarrow> error + fval list" where
  "broadcast_to m v =
     (let s = dropWhile (\<lambda>n. n = 1) (shape v) in
      if s = [] then Inr (replicate m (flat v ! 0))
      else if s = [m] then Inr (flat v)
      else Inl (ValueError, Numpy_error ''could not broadcast input array''))"

definition element_value :: "bool \<Rightarrow> ndarray \<Rightarrow> error + fval list" where
  "element_value is_ndarray v =
     (if shape v = [] \<or> (is_ndarray \<and> arr_size v = 1) then Inr [flat v ! 0]
      else Inl (ValueError, Numpy_error ''setting an array element with a sequence''))"

definition assign_at :: "nat list \<Rightarrow> 'a list \<Rightarrow> 'a list \<Rightarrow> 'a list" where
  "assign_at ps vs target = fold (\<lambda>(p, v) acc. acc[p := v]) (zip ps vs) target"

definition np_setitem1 :: "fval list \<Rightarrow> index \<Rightarrow> bool \<Rightarrow> ndarray \<Rightarrow> error + fval list" where
  "np_setitem1 target k is_ndarray v =
     (case positions (length target) k of
        Inl e \<Rightarrow> Inl e
      | Inr ps \<Rightarrow>
          (case (case k of IInt i \<Rightarrow> element_value is_ndarray v
                         | _ \<Rightarrow> broadcast_to (length ps) v) of
             Inl e \<Rightarrow> Inl e
           | Inr vs \<Rightarrow> Inr (assign_at ps vs target)))"

definition setvalue_array :: "setvalue \<Rightarrow> error + bool \<times> ndarray" where
  "setvalue_array v =
     (case v of
        SData vd \<Rightarrow> Inl (TypeError, Cannot_set_with_Data)
      | SArray a \<Rightarrow> Inr (True, a)
      | SArrayLike a \<Rightarrow> Inr (False, a))"

definition set_x :: "data \<Rightarrow> index \<Rightarrow> setvalue \<Rightarrow> error + data" where
  "set_x self k v =
     (case setvalue_array v of
        Inl e \<Rightarrow> Inl e
      | Inr (is_ndarray, a) \<Rightarrow>
          (case index_check self k of
             Inl e \<Rightarrow> Inl e
           | Inr individual \<Rightarrow>
               (case np_setitem1 (data_x self) k is_ndarray a of
                  Inl e \<Rightarrow> Inl e
                | Inr new_x \<Rightarrow> Data2 (array1 new_x) (array1 (data_y self)))))"

definition set_y :: "data \<Rightarrow> index \<Rightarrow> setvalue \<Rightarrow> error + data" where
  "set_y self k v =
     (case setvalue_array v of
        Inl e \<Rightarrow> Inl e
      | Inr (is_ndarray, a) \<Rightarrow>
          (case index_check self k of
             Inl e \<Rightarrow> Inl e
           | Inr individual \<Rightarrow>
               (case np_setitem1 (data_y self) k is_ndarray a of
                  Inl e \<Rightarrow> Inl e
                | Inr new_y \<Rightarrow> Data2 (array1 (data_x self)) (array1 new_y))))"

text \<open>\<^verbatim>\<open>new_data[k] = v\<close> for a two-column \<open>v\<close> that has as many elements as the
  selected rows.\<close>

definition np_setitem2 :: "ndarray \<Rightarrow> index \<Rightarrow> ndarray \<Rightarrow> error + ndarray" where
  "np_setitem2 target k v =
     (case positions (length (rows_of target)) k of
        Inl e \<Rightarrow> Inl e
      | Inr ps \<Rightarrow> Inr (matrix2 (assign_at ps (rows_of v) (rows_of target))))"

definition selected_size :: "data \<Rightarrow> index \<Rightarrow> bool \<Rightarrow> error + nat" where
  "selected_size self k individual =
     (if individual then Inr 2
      else (case positions (length (rows_of (data_values self))) k of
              Inl e \<Rightarrow> Inl e
            | Inr ps \<Rightarrow> Inr (2 * length ps)))"

definition set_data_value :: "nat \<Rightarrow> setvalue \<Rightarrow> error + ndarray" where
  "set_data_value sz v =
     (case v of
        SArrayLike a \<Rightarrow> Inl (TypeError, Set_data_type)
      | SData vd \<Rightarrow>
          if sz \<noteq> arr_size (data_values vd)
          then Inl (ValueError, Set_data_size sz (arr_size (data_values vd)))
          else Inr (data_values vd)
      | SArray a \<Rightarrow>
          if ndim a \<noteq> 2 then Inl (ValueError, Set_data_dimension (shape a))
          else if shape a ! 1 \<noteq> 2 then Inl (ValueError, Set_data_columns (shape a))
          else if arr_size a \<noteq> sz then Inl (ValueError, Set_data_size sz (arr_size a))
          else Inr a)"

definition set_data :: "data \<Rightarrow> index \<Rightarrow> setvalue \<Rightarrow> error + data" where
  "set_data self k v =
     (case index_check self k of
        Inl e \<Rightarrow> Inl e
      | Inr individual \<Rightarrow>
          (case selected_size self k individual of
             Inl e \<Rightarrow> Inl e
           | Inr sz \<Rightarrow>
               (case set_data_value sz v of
                  Inl e \<Rightarrow> Inl e
                | Inr a \<Rightarrow>
                    (case np_setitem2 (data_values self) k a of
                       Inl e \<Rightarrow> Inl e
                     | Inr new_data \<Rightarrow> Data1 new_data))))"

definition apply_x :: "data \<Rightarrow> (fval list \<Rightarrow> ndarray) \<Rightarrow> error + data" where
  "apply_x d f = Data2 (f (data_x d)) (array1 (data_y d))"

definition apply_y :: "data \<Rightarrow> (fval list \<Rightarrow> ndarray) \<Rightarrow> error + data" where
  "apply_y d f = Data2 (array1 (data_x d)) (f (data_y d))"

section \<open>The invariant of a container\<close>

text \<open>
  The two-column array has \<open>N\<close> rows, \<open>x\<close> is its column 0 and \<open>y\<close> its column 1, both of
  length \<open>N\<close>.
\<close>

definition invariant :: "data \<Rightarrow> bool" where
  "invariant d \<longleftrightarrow>
     shape (data_values d) = [length (data_x d), 2] \<and>
     wf_array (data_values d) \<and>
     data_x d = col0 (data_values d) \<and>
     data_y d = col1 (data_values d) \<and>
     length (data_y d) = length (data_x d) \<and>
     data_both d = (data_x d, data_y d)"

text \<open>
  The containers a caller can hold: those a construction returned, and the results of
  the public operations on such containers. A construction from an array takes a
  well-formed array, as numpy makes them.
\<close>

inductive observable :: "data \<Rightarrow> bool" where
  constructed:
    "wf_array a \<Longrightarrow> Data_init (PArray a) split_y ss step_size = Inr d \<Longrightarrow> observable d"
| copied:
    "observable d0 \<Longrightarrow> Data_init (PData d0) split_y ss step_size = Inr d \<Longrightarrow> observable d"
| binary:
    "observable d \<Longrightarrow> binop f operation d other = Inr d' \<Longrightarrow> observable d'"
| reflected:
    "observable d \<Longrightarrow> rbinop f operation d other = Inr d' \<Longrightarrow> observable d'"
| absolute: "observable d \<Longrightarrow> abs_data d = Inr d' \<Longrightarrow> observable d'"
| negated: "observable d \<Longrightarrow> neg_data d = Inr d' \<Longrightarrow> observable d'"
| positive: "observable d \<Longrightarrow> pos_data d = Inr d' \<Longrightarrow> observable d'"
| indexed: "observable d \<Longrightarrow> getitem d k = Inr (Rows d') \<Longrightarrow> observable d'"
| cut: "observable d \<Longrightarrow> x_cut d x_min x_max = Inr d' \<Longrightarrow> observable d'"
| stripped: "observable d \<Longrightarrow> strip_nan d = Inr d' \<Longrightarrow> observable d'"
| sorted: "observable d \<Longrightarrow> sort_data d = Inr d' \<Longrightarrow> observable d'"
| range_resampled:
    "observable d \<Longrightarrow> interp_range d lo hi step_size kw = Inr d' \<Longrightarrow> observable d'"
| range_resampled_in_place:
    "observable d \<Longrightarrow> to_range d lo hi step_size kw = Inr d' \<Longrightarrow> observable d'"
| even_resampled:
    "observable d \<Longrightarrow> interp_full d step_size kw = Inr d' \<Longrightarrow> observable d'"
| even_resampled_in_place:
    "observable d \<Longrightarrow> to_even d step_size kw = Inr d' \<Longrightarrow> observable d'"
| count_resampled:
    "observable d \<Longrightarrow> interp_number d point_number kw = Inr d' \<Longrightarrow> observable d'"
| x_set: "observable d \<Longrightarrow> set_x d k v = Inr d' \<Longrightarrow> observable d'"
| y_set: "observable d \<Longrightarrow> set_y d k v = Inr d' \<Longrightarrow> observable d'"
| data_set: "observable d \<Longrightarrow> set_data d k v = Inr d' \<Longrightarrow> observable d'"
| x_applied: "observable d \<Longrightarrow> apply_x d g = Inr d' \<Longrightarrow> observable d'"
| y_applied: "observable d \<Longrightarrow> apply_y d g = Inr d' \<Longrightarrow> observable d'"
| summed: "\<forall>d \<in> set ds. observable d \<Longrightarrow> sum_data ds = Inr d' \<Longrightarrow> observable d'"
| averaged: "\<forall>d \<in> set ds. observable d \<Longrightarrow> mean ds = Inr d' \<Longrightarrow> observable d'"

text \<open>IEEE-ascending: each element is \<open>\<le>\<close> every later one, and none is NaN.\<close>

definition ascending :: "fval list \<Rightarrow> bool" where
  "ascending vs \<longleftrightarrow> sorted_wrt fle vs \<and> (\<forall>v \<in> set vs. \<not> isnan v)"


section \<open>Example containers\<close>

text \<open>\<^verbatim>\<open>Data([[nan, 1.0], [2.0, 3.0]])\<close>: one row with a NaN and a finite value.\<close>

definition example_nan_row :: data where
  "example_nan_row = set_attributes (matrix2 [(NaN, Fin 1), (Fin 2, Fin 3)])"

text \<open>\<^verbatim>\<open>Data([[1.0, 2.0], [3.0, 4.0]])\<close>.\<close>

definition example_two_rows :: data where
  "example_two_rows = set_attributes (matrix2 [(Fin 1, Fin 2), (Fin 3, Fin 4)])"

text \<open>\<^verbatim>\<open>Data([[0.0, 1.0], [1.0, -2.0]])\<close>.\<close>

definition example_signed :: data where
  "example_signed = set_attributes (matrix2 [(Fin 0, Fin 1), (Fin 1, Fin (- 2))])"

text \<open>\<^verbatim>\<open>Data([[0.0, 1.0], [1.0, 2.0]])\<close> and \<^verbatim>\<open>Data([[5.0, 10.0], [6.0, 20.0]])\<close>: two rows
  each, different \<open>x\<close>.\<close>

definition example_sum_a :: data where
  "example_sum_a = set_attributes (matrix2 [(Fin 0, Fin 1), (Fin 1, Fin 2)])"

definition example_sum_b :: data where
  "example_sum_b = set_attributes (matrix2 [(Fin 5, Fin 10), (Fin 6, Fin 20)])"

text \<open>\<^verbatim>\<open>Data([[0, 5], [1, 1], [2, 3], [2, 4], [3, 3]])\<close>: ascending \<open>x\<close> with a repeated
  value.\<close>

definition example_cut :: data where
  "example_cut =
     set_attributes (matrix2 [(Fin 0, Fin 5), (Fin 1, Fin 1), (Fin 2, Fin 3), (Fin 2, Fin 4),
                              (Fin 3, Fin 3)])"

text \<open>\<^verbatim>\<open>Data([[0, 5], [1, 1], [2, 3]])\<close>: the smallest \<open>y\<close> is not at the smallest \<open>x\<close>.\<close>

definition example_dip :: data where
  "example_dip = set_attributes (matrix2 [(Fin 0, Fin 5), (Fin 1, Fin 1), (Fin 2, Fin 3)])"

text \<open>Keyword arguments \<^verbatim>\<open>bounds_error=True, fill_value=7.0, smoothing=...\<close>.\<close>

definition example_kwargs :: kwargs where
  "example_kwargs =
     no_kwargs\<lparr>kw_bounds_error := Some True, kw_fill_value := Some (Fill_value (Fin 7)),
       kw_other := [''smoothing'']\<rparr>"

text \<open>The example of the specification: \<^verbatim>\<open>Data([[0, 0], [1, 1], [2, 4], [3, 9], [4, 16]])\<close>.\<close>

definition example_squares :: data where
  "example_squares =
     set_attributes (matrix2 [(Fin 0, Fin 0), (Fin 1, Fin 1), (Fin 2, Fin 4), (Fin 3, Fin 9),
                              (Fin 4, Fin 16)])"

text \<open>\<^verbatim>\<open>Data([[0, 0], [1.7, 1]])\<close>, to be resampled with the step \<^verbatim>\<open>0.1\<close>; the literals
  are the doubles nearest to \<open>17 / 10\<close> and \<open>1 / 10\<close>.\<close>

definition example_overshoot :: data where
  "example_overshoot = set_attributes (matrix2 [(Fin 0, Fin 0), (rnd (17 / 10), Fin 1)])"

text \<open>\<^verbatim>\<open>Data([[0, 0], [inf, 1]])\<close>.\<close>

definition example_infinite :: data where
  "example_infinite = set_attributes (matrix2 [(Fin 0, Fin 0), (PInf, Fin 1)])"

section \<open>Basic facts about arrays and the constructor\<close>

lemma pairs_unpairs [simp]: "pairs (unpairs rs) = rs"
  by (induction rs) auto

lemma length_unpairs [simp]: "length (unpairs rs) = 2 * length rs"
  by (induction rs) auto

lemma unpairs_pairs: "even (length vs) \<Longrightarrow> unpairs (pairs vs) = vs"
  by (induction vs rule: pairs.induct) auto

lemma length_pairs [simp]: "length (pairs vs) = length vs div 2"
  by (induction vs rule: pairs.induct) auto

lemma rows_of_matrix2 [simp]: "rows_of (matrix2 rs) = rs"
  by (simp add: rows_of_def matrix2_def)

lemma shape_matrix2 [simp]: "shape (matrix2 rs) = [length rs, 2]"
  by (simp add: matrix2_def)

lemma wf_matrix2 [simp]: "wf_array (matrix2 rs)"
  by (simp add: wf_array_def matrix2_def)

lemma col0_matrix2 [simp]: "col0 (matrix2 rs) = map fst rs"
  by (simp add: col0_def)

lemma col1_matrix2 [simp]: "col1 (matrix2 rs) = map snd rs"
  by (simp add: col1_def)

lemma data_x_set_attributes [simp]: "data_x (set_attributes a) = col0 a"
  and data_y_set_attributes [simp]: "data_y (set_attributes a) = col1 a"
  and data_values_set_attributes [simp]: "data_values (set_attributes a) = a"
  and data_both_set_attributes [simp]: "data_both (set_attributes a) = (col0 a, col1 a)"
  by (simp_all add: set_attributes_def)

lemma invariant_two_column:
  assumes "wf_array a" "ndim a = 2" "shape a ! 1 = 2"
  shows "invariant (set_attributes a)"
proof -
  from assms(2) obtain n m where s: "shape a = [n, m]"
    by (cases "shape a"; cases "tl (shape a)"; cases "tl (tl (shape a))") (auto simp: ndim_def)
  with assms(3) have m: "m = 2" by simp
  from assms(1) s m have len: "length (flat a) = n * 2" by (simp add: wf_array_def)
  then show ?thesis using s m assms(1)
    by (simp add: invariant_def col0_def col1_def rows_of_def)
qed

lemma invariant_matrix2 [simp]: "invariant (set_attributes (matrix2 rs))"
  by (rule invariant_two_column) (simp_all add: ndim_def)

lemma Data1_matrix2 [simp]: "Data1 (matrix2 rs) = Inr (set_attributes (matrix2 rs))"
  by (simp add: Data1_def init_core_def split_mode_def check_two_column_def ndim_def
      apply_strip_sort_def)

lemma Data2_array1:
  "Data2 (array1 us) (array1 vs) =
     (if length us = length vs then Inr (set_attributes (matrix2 (zip us vs)))
      else Inl (AttributeError, No_attribute ''szie''))"
  by (simp add: Data2_def init_core_def split_mode_def check_two_column_def ndim_def
      apply_strip_sort_def array1_def arr_size_def concatenate_columns_def)

lemma invariant_lengths: "invariant d \<Longrightarrow> length (data_y d) = length (data_x d)"
  by (simp add: invariant_def col0_def col1_def)

lemma invariant_rows:
  assumes "invariant d"
  shows "data_values d = matrix2 (zip (data_x d) (data_y d))"
    and "rows_of (data_values d) = zip (data_x d) (data_y d)"
    and "d = set_attributes (matrix2 (zip (data_x d) (data_y d)))"
proof -
  from assms have sh: "shape (data_values d) = [length (data_x d), 2]"
    and wf: "wf_array (data_values d)"
    and x: "data_x d = col0 (data_values d)" and y: "data_y d = col1 (data_values d)"
    and b: "data_both d = (data_x d, data_y d)"
    by (simp_all add: invariant_def)
  have z: "zip (data_x d) (data_y d) = rows_of (data_values d)"
    by (simp add: x y col0_def col1_def zip_map_fst_snd)
  from wf sh have ev: "even (length (flat (data_values d)))" by (simp add: wf_array_def)
  have len: "length (rows_of (data_values d)) = length (data_x d)"
    by (simp add: x col0_def)
  show v: "data_values d = matrix2 (zip (data_x d) (data_y d))"
    using sh unpairs_pairs[OF ev] len by (simp add: z matrix2_def rows_of_def)
  show "rows_of (data_values d) = zip (data_x d) (data_y d)" by (simp add: z)
  show "d = set_attributes (matrix2 (zip (data_x d) (data_y d)))"
    using v b x y by (simp add: set_attributes_def)
qed

lemma interp1d_linear_length:
  "interp1d_linear xs ys kw q = Inr r \<Longrightarrow> length r = length q"
  by (auto simp: interp1d_linear_def Let_def split: if_splits)

lemma interp1d_length:
  "interp1d xs ys kw q = Inr r \<Longrightarrow> kw_kind kw = None \<or> kw_kind kw = Some Linear \<Longrightarrow>
   length r = length q"
  by (auto simp: interp1d_def split: if_splits dest: interp1d_linear_length)

lemma Data2_array1_Inr:
  "Data2 (array1 us) (array1 vs) = Inr d \<Longrightarrow>
   length us = length vs \<and> d = set_attributes (matrix2 (zip us vs))"
  by (simp add: Data2_array1 split: if_splits)

lemma Data2_columns:
  "length us = length vs \<Longrightarrow> Data2 (array1 us) (array1 vs) = Inr d \<Longrightarrow>
   data_x d = us \<and> data_y d = vs"
  by (auto simp: Data2_array1)

text \<open>Each example container is what the constructor returns on its array.\<close>

lemma examples_constructed:
  "Data_init (PArray (matrix2 [(NaN, Fin 1), (Fin 2, Fin 3)])) None SS_False None
     = Inr example_nan_row"
  "Data_init (PArray (matrix2 [(Fin 1, Fin 2), (Fin 3, Fin 4)])) None SS_False None
     = Inr example_two_rows"
  "Data_init (PArray (matrix2 [(Fin 0, Fin 1), (Fin 1, Fin (- 2))])) None SS_False None
     = Inr example_signed"
  "Data_init (PArray (matrix2 [(Fin 0, Fin 1), (Fin 1, Fin 2)])) None SS_False None
     = Inr example_sum_a"
  "Data_init (PArray (matrix2 [(Fin 5, Fin 10), (Fin 6, Fin 20)])) None SS_False None
     = Inr example_sum_b"
  "Data_init (PArray (matrix2 [(Fin 0, Fin 5), (Fin 1, Fin 1), (Fin 2, Fin 3)])) None SS_False None
     = Inr example_dip"
  "Data_init (PArray (array1 [Fin 0, Fin 1, Fin 2, Fin 3, Fin 4]))
     (Some (array1 [Fin 0, Fin 1, Fin 4, Fin 9, Fin 16])) SS_False None
     = Inr example_squares"
  by code_simp+

section \<open>Construction in split mode\<close>

text \<open>
  C6 (the code departs from the claim). The claim: two 1-D inputs of unequal length
  make the constructor raise a \<open>ShapeError\<close> whose message gives the two sizes. The
  source builds that message with \<^verbatim>\<open>split_y.szie\<close>, so on \<^verbatim>\<open>Data([1.0, 2.0],
  [1.0, 2.0, 3.0])\<close> the formatting of the message raises \<^verbatim>\<open>AttributeError\<close> and the
  \<^verbatim>\<open>ValueError\<close> is never raised. An input that is not 1-D raises the \<open>ShapeError\<close>
  with its shape, as claimed.
\<close>

theorem split_unequal_sizes_raise_AttributeError:
  "Data_init (PArray (array1 [Fin 1, Fin 2])) (Some (array1 [Fin 1, Fin 2, Fin 3])) SS_False None
     = Inl (AttributeError, No_attribute ''szie'')
   \<and> \<not> is_ShapeError (AttributeError, No_attribute ''szie'')
   \<and> Data_init (PArray (matrix2 [(Fin 1, Fin 2)])) (Some (array1 [Fin 1, Fin 2])) SS_False None
       = Inl (ValueError, Split_values_not_1D [1, 2])
   \<and> Data_init (PArray (array1 [Fin 1, Fin 2])) (Some (matrix2 [(Fin 1, Fin 2)])) SS_False None
       = Inl (ValueError, Split_y_not_1D [1, 2])"
  by code_simp

section \<open>Stripping non-finite rows\<close>

text \<open>
  C2 (the code departs from the claim). The claim: \<^verbatim>\<open>strip_nan()\<close> and construction with
  \<^verbatim>\<open>strip_sort='strip'\<close> remove every row that holds a non-finite value. The source
  keeps the rows where \<^verbatim>\<open>np.isfinite(values).any(axis=1)\<close>, that is where some entry
  is finite: the row \<open>[nan, 1.0]\<close> survives both.
\<close>

theorem strip_keeps_row_with_one_nan:
  "strip_nan example_nan_row = Inr example_nan_row
   \<and> Data_init (PArray (matrix2 [(NaN, Fin 1), (Fin 2, Fin 3)])) None SS_strip None
       = Inr example_nan_row
   \<and> (NaN, Fin 1) \<in> set (rows_of (data_values example_nan_row))"
  by code_simp

section \<open>Indexing with one integer\<close>

text \<open>
  C4 (the code departs from the claim). The claim: \<^verbatim>\<open>d[i]\<close> returns the pair
  \<open>[x_i, y_i]\<close>. The source evaluates \<^verbatim>\<open>self.values(k)\<close>, a call instead of a
  subscript, so \<^verbatim>\<open>d[0]\<close> raises \<^verbatim>\<open>TypeError\<close> and no pair is returned. A slice
  returns the container of its rows and a tuple is rejected, as claimed.
\<close>

theorem getitem_integer_raises_TypeError:
  "getitem example_two_rows (IInt 0) = Inl (TypeError, Ndarray_not_callable)
   \<and> getitem example_two_rows (IInt 0) \<noteq> Inr (Row (array1 [Fin 1, Fin 2]))
   \<and> getitem example_two_rows (ISlice (Some 1) None None)
       = Inr (Rows (set_attributes (matrix2 [(Fin 3, Fin 4)])))
   \<and> getitem example_two_rows ITuple = Inl (IndexError, Only_one_index)"
  by code_simp

section \<open>Negation and unary plus\<close>

text \<open>
  C5 (the code departs from the claim). The claim: negation, unary plus and absolute
  value each return a new container. \<^verbatim>\<open>__neg__\<close> and \<^verbatim>\<open>__pos__\<close> call \<^verbatim>\<open>neg\<close> and
  \<^verbatim>\<open>pos\<close>, names the module never defines, so \<^verbatim>\<open>-d\<close> and \<^verbatim>\<open>+d\<close> raise
  \<^verbatim>\<open>NameError\<close>; only \<^verbatim>\<open>abs(d)\<close> returns.
\<close>

theorem neg_and_pos_raise_NameError:
  "neg_data example_signed = Inl (NameError, Name_not_defined ''neg'')
   \<and> pos_data example_signed = Inl (NameError, Name_not_defined ''pos'')
   \<and> abs_data example_signed = Inr (set_attributes (matrix2 [(Fin 0, Fin 1), (Fin 1, Fin 2)]))"
  by code_simp

section \<open>The sum of a list of containers\<close>

lemma init_core_not_mismatched:
  "init_core v sy ss = Inl e \<Longrightarrow> \<not> is_MismatchedAxisError e"
  by (auto simp: init_core_def split_mode_def check_two_column_def Let_def
      split: option.splits if_splits sum.splits)

lemma maths_check_array1:
  "length zs = length (data_x d) \<Longrightarrow> maths_check d (OArray (array1 zs)) opn = Inr (array1 zs)"
  by (simp add: maths_check_def array1_def arr_size_def ndim_def)

lemma np_elementwise_array1:
  "length zs = length ys \<Longrightarrow> np_elementwise f ys (array1 zs) = array1 (map2 f ys zs)"
  by (cases ys; cases zs) (auto simp: np_elementwise_def array1_def arr_size_def ndim_def)

lemma binop_array1:
  assumes "length zs = length (data_x d)" "length (data_y d) = length (data_x d)"
  shows "binop f opn d (OArray (array1 zs))
           = Inr (set_attributes (matrix2 (zip (data_x d) (map2 f (data_y d) zs))))"
  using assms by (simp add: binop_def maths_check_array1 np_elementwise_array1 Data2_array1)

lemma binop_array_not_mismatched:
  "binop f opn d (OArray a) = Inl e \<Longrightarrow> \<not> is_MismatchedAxisError e"
  by (auto simp: binop_def maths_check_def Data2_def split: sum.splits if_splits
      dest: init_core_not_mismatched)

lemma sum_loop_not_mismatched:
  "sum_loop t ds = Inl e \<Longrightarrow> \<not> is_MismatchedAxisError e"
proof (induction ds arbitrary: t)
  case Nil
  then show ?case by simp
next
  case (Cons d ds)
  then show ?case
    by (auto simp: add_data_def split: sum.splits dest: binop_array_not_mismatched)
qed

lemma sum_loop_equal_lengths:
  assumes "length (data_y t) = length (data_x t)"
    and "\<forall>d \<in> set ds. length (data_y d) = length (data_x t)"
    and "invariant t"
  shows "\<exists>d'. sum_loop t ds = Inr d' \<and> invariant d' \<and> data_x d' = data_x t \<and>
           data_y d' = foldl (map2 fadd) (data_y t) (map data_y ds)"
  using assms
proof (induction ds arbitrary: t)
  case Nil
  then show ?case by simp
next
  case (Cons d ds)
  let ?t' = "set_attributes (matrix2 (zip (data_x t) (map2 fadd (data_y t) (data_y d))))"
  from Cons.prems have len: "length (data_y d) = length (data_x t)" by simp
  have step: "add_data t (OArray (array1 (data_y d))) = Inr ?t'"
    unfolding add_data_def using len Cons.prems(1) by (rule binop_array1)
  have x': "data_x ?t' = data_x t" and y': "data_y ?t' = map2 fadd (data_y t) (data_y d)"
    using len Cons.prems(1) by simp_all
  have "\<exists>d'. sum_loop ?t' ds = Inr d' \<and> invariant d' \<and> data_x d' = data_x ?t' \<and>
           data_y d' = foldl (map2 fadd) (data_y ?t') (map data_y ds)"
  proof (rule Cons.IH)
    show "length (data_y ?t') = length (data_x ?t')" using len Cons.prems(1) by simp
    show "\<forall>d\<in>set ds. length (data_y d) = length (data_x ?t')" using Cons.prems(2) x' by simp
    show "invariant ?t'" by simp
  qed
  then show ?case using step x' y' by simp
qed

text \<open>
  C1 (as stated, refuted). The claim: \<^verbatim>\<open>sum_data\<close> on two containers of equal row
  count whose \<open>x\<close> columns differ raises \<open>MismatchedAxisError\<close>. The two example
  containers have two rows each and different \<open>x\<close>; \<^verbatim>\<open>sum_data\<close> returns the first
  \<open>x\<close> with the summed \<open>y\<close>.
\<close>

theorem sum_data_different_x_counterexample:
  "length (data_x example_sum_a) = length (data_x example_sum_b)
   \<and> \<not> array_equal (data_x example_sum_a) (data_x example_sum_b)
   \<and> sum_data [example_sum_a, example_sum_b]
       = Inr (set_attributes (matrix2 [(Fin 0, Fin 11), (Fin 1, Fin 22)]))"
  by code_simp

text \<open>
  C1 (amended). \<^verbatim>\<open>sum_data\<close> adds the \<open>y\<close> array of each later container to the
  running total and never compares \<open>x\<close> columns: for a well-formed first container and
  later well-formed containers of the same row count it returns a container with the
  first container's \<open>x\<close> and the elementwise sum of the \<open>y\<close> columns, whatever the
  other \<open>x\<close> columns are; and no call of \<^verbatim>\<open>sum_data\<close> raises \<open>MismatchedAxisError\<close>.
\<close>

theorem sum_data_ignores_x:
  assumes "invariant d"
    and "\<forall>d' \<in> set ds. invariant d' \<and> length (data_x d') = length (data_x d)"
  shows "(\<exists>t. sum_data (d # ds) = Inr t \<and> invariant t \<and> data_x t = data_x d \<and>
              data_y t = foldl (map2 fadd) (data_y d) (map data_y ds))
         \<and> (\<forall>l e. sum_data l = Inl e \<longrightarrow> \<not> is_MismatchedAxisError e)"
proof
  from assms(1) have ly: "length (data_y d) = length (data_x d)"
    by (rule invariant_lengths)
  from assms(2) have rest: "\<forall>d' \<in> set ds. length (data_y d') = length (data_x d)"
    using invariant_lengths by fastforce
  show "\<exists>t. sum_data (d # ds) = Inr t \<and> invariant t \<and> data_x t = data_x d \<and>
              data_y t = foldl (map2 fadd) (data_y d) (map data_y ds)"
    unfolding sum_data_def list.case by (rule sum_loop_equal_lengths [OF ly rest assms(1)])
next
  show "\<forall>l e. sum_data l = Inl e \<longrightarrow> \<not> is_MismatchedAxisError e"
    by (auto simp: sum_data_def split: list.splits dest: sum_loop_not_mismatched)
qed

lemma rnd_eleven: "rnd 11 = Fin 11" by code_simp

lemma rnd_twenty_two: "rnd 22 = Fin 22" by code_simp

theorem sum_data_ignores_x_witness:
  "invariant example_sum_a \<and> invariant example_sum_b
   \<and> length (data_x example_sum_b) = length (data_x example_sum_a)
   \<and> (\<exists>t. sum_data [example_sum_a, example_sum_b] = Inr t \<and> invariant t \<and>
            data_x t = [Fin 0, Fin 1] \<and> data_y t = [Fin 11, Fin 22])"
proof -
  have a: "invariant example_sum_a" and b: "invariant example_sum_b"
    by (simp_all add: example_sum_a_def example_sum_b_def)
  have l: "length (data_x example_sum_b) = length (data_x example_sum_a)"
    by (simp add: example_sum_a_def example_sum_b_def)
  have "\<forall>d' \<in> set [example_sum_b]. invariant d' \<and> length (data_x d') = length (data_x example_sum_a)"
    using b l by simp
  from sum_data_ignores_x [OF a this] a b l show ?thesis
    by (simp add: example_sum_a_def example_sum_b_def rnd_eleven rnd_twenty_two)
qed

section \<open>Cutting to a range of x\<close>

lemma np_less_le_trans: "\<not> np_less b a \<Longrightarrow> np_less b c \<Longrightarrow> np_less a c"
  by (cases a; cases b; cases c) (auto simp: np_less_def)

lemma np_le_trans: "\<not> np_less b a \<Longrightarrow> \<not> np_less c b \<Longrightarrow> \<not> np_less c a"
  by (cases a; cases b; cases c) (auto simp: np_less_def)

lemma fle_not_np_less: "fle a b \<Longrightarrow> \<not> np_less b a"
  by (cases a; cases b) (auto simp: np_less_def fle_def)

lemma ascending_np_sorted:
  "ascending vs \<Longrightarrow> sorted_wrt (\<lambda>u v. \<not> np_less v u) vs"
  unfolding ascending_def
  by (metis (mono_tags, lifting) fle_not_np_less sorted_wrt_mono_rel)

lemma filter_take_partition:
  assumes "r \<le> length zs" "\<forall>k<r. Q (zs ! k)" "\<forall>k. r \<le> k \<and> k < length zs \<longrightarrow> \<not> Q (zs ! k)"
  shows "filter Q zs = take r zs"
proof -
  have a: "filter Q (take r zs) = take r zs"
    using assms(1,2) by (auto simp: filter_id_conv in_set_conv_nth)
  have b: "filter Q (drop r zs) = []"
    using assms(1,3) by (auto simp: filter_empty_conv in_set_conv_nth)
  have "filter Q zs = filter Q (take r zs @ drop r zs)" by simp
  also have "\<dots> = take r zs" unfolding filter_append a b by simp
  finally show ?thesis .
qed

lemma filter_drop_partition:
  assumes "\<forall>k<r. k < length zs \<longrightarrow> \<not> Q (zs ! k)" "\<forall>k. r \<le> k \<and> k < length zs \<longrightarrow> Q (zs ! k)"
  shows "filter Q zs = drop r zs"
proof -
  have a: "filter Q (take r zs) = []"
    using assms(1) by (auto simp: filter_empty_conv in_set_conv_nth)
  have b: "filter Q (drop r zs) = drop r zs"
    using assms(2) by (auto simp: filter_id_conv in_set_conv_nth)
  have "filter Q zs = filter Q (take r zs @ drop r zs)" by simp
  also have "\<dots> = drop r zs" unfolding filter_append a b by simp
  finally show ?thesis .
qed

lemma binsearch_done: "\<not> lo < hi \<Longrightarrow> binsearch P vs lo hi = lo"
  by (subst binsearch.simps) simp

lemma binsearch_right:
  "lo < hi \<Longrightarrow> P (vs ! (lo + (hi - lo) div 2)) \<Longrightarrow>
   binsearch P vs lo hi = binsearch P vs (lo + (hi - lo) div 2 + 1) hi"
  by (subst binsearch.simps) (simp add: Let_def)

lemma binsearch_left:
  "lo < hi \<Longrightarrow> \<not> P (vs ! (lo + (hi - lo) div 2)) \<Longrightarrow>
   binsearch P vs lo hi = binsearch P vs lo (lo + (hi - lo) div 2)"
  by (subst binsearch.simps) (simp add: Let_def)

lemma binsearch_partition:
  assumes mono: "\<And>j k. j \<le> k \<Longrightarrow> k < length vs \<Longrightarrow> P (vs ! k) \<Longrightarrow> P (vs ! j)"
  shows "lo \<le> hi \<Longrightarrow> hi \<le> length vs \<Longrightarrow> (\<forall>k<lo. P (vs ! k)) \<Longrightarrow>
         (\<forall>k. hi \<le> k \<and> k < length vs \<longrightarrow> \<not> P (vs ! k)) \<Longrightarrow>
         binsearch P vs lo hi \<le> length vs \<and>
         (\<forall>k<binsearch P vs lo hi. P (vs ! k)) \<and>
         (\<forall>k. binsearch P vs lo hi \<le> k \<and> k < length vs \<longrightarrow> \<not> P (vs ! k))"
  using mono
proof (induction P vs lo hi rule: binsearch.induct)
  case (1 P vs lo hi)
  note mono = "1.prems"(5)
  show ?case
  proof (cases "lo < hi")
    case False
    with "1.prems"(1) have e: "lo = hi" by simp
    have r: "binsearch P vs lo hi = hi" using binsearch_done[OF False, of P vs] e by simp
    show ?thesis unfolding r using "1.prems"(2,3,4) e by blast
  next
    case True
    define mid where "mid = lo + (hi - lo) div 2"
    from True have m: "lo \<le> mid" "mid < hi" by (simp_all add: mid_def)
    from m "1.prems"(2) have ml: "mid < length vs" by simp
    show ?thesis
    proof (cases "P (vs ! mid)")
      case right: True
      have low: "\<forall>k<mid + 1. P (vs ! k)"
      proof (intro allI impI)
        fix k assume "k < mid + 1"
        then have "k \<le> mid" by simp
        then show "P (vs ! k)" using right ml mono by blast
      qed
      have eq: "binsearch P vs lo hi = binsearch P vs (mid + 1) hi"
        unfolding mid_def using True right[unfolded mid_def] by (rule binsearch_right)
      have le: "mid + 1 \<le> hi" using m by simp
      show ?thesis unfolding eq
        by (rule "1.IH"(1)[OF True mid_def right le "1.prems"(2) low "1.prems"(4) mono])
    next
      case left: False
      have high: "\<forall>k. mid \<le> k \<and> k < length vs \<longrightarrow> \<not> P (vs ! k)"
      proof (intro allI impI)
        fix k assume "mid \<le> k \<and> k < length vs"
        then show "\<not> P (vs ! k)" using left mono by blast
      qed
      have eq: "binsearch P vs lo hi = binsearch P vs lo mid"
        unfolding mid_def using True left[unfolded mid_def] by (rule binsearch_left)
      have le: "mid \<le> length vs" using ml by simp
      show ?thesis unfolding eq
        by (rule "1.IH"(2)[OF True mid_def left m(1) le "1.prems"(3) high mono])
    qed
  qed
qed


lemma searchsorted_left_partition:
  assumes "sorted_wrt (\<lambda>u v. \<not> np_less v u) vs"
  shows "searchsorted_left vs a \<le> length vs \<and>
         (\<forall>k<searchsorted_left vs a. np_less (vs ! k) a) \<and>
         (\<forall>k. searchsorted_left vs a \<le> k \<and> k < length vs \<longrightarrow> \<not> np_less (vs ! k) a)"
  unfolding searchsorted_left_def
proof (rule binsearch_partition)
  fix j k assume jk: "j \<le> k" "k < length vs" and p: "np_less (vs ! k) a"
  show "np_less (vs ! j) a"
  proof (cases "j = k")
    case True with p show ?thesis by simp
  next
    case False
    with jk have "j < k" by simp
    with assms jk(2) have "\<not> np_less (vs ! k) (vs ! j)" by (simp add: sorted_wrt_iff_nth_less)
    then show ?thesis using p by (rule np_less_le_trans)
  qed
qed auto

lemma searchsorted_right_partition:
  assumes "sorted_wrt (\<lambda>u v. \<not> np_less v u) vs"
  shows "searchsorted_right vs b \<le> length vs \<and>
         (\<forall>k<searchsorted_right vs b. \<not> np_less b (vs ! k)) \<and>
         (\<forall>k. searchsorted_right vs b \<le> k \<and> k < length vs \<longrightarrow> \<not> \<not> np_less b (vs ! k))"
  unfolding searchsorted_right_def
proof (rule binsearch_partition)
  fix j k assume jk: "j \<le> k" "k < length vs" and p: "\<not> np_less b (vs ! k)"
  show "\<not> np_less b (vs ! j)"
  proof (cases "j = k")
    case True with p show ?thesis by simp
  next
    case False
    with jk have "j < k" by simp
    with assms jk(2) have "\<not> np_less (vs ! k) (vs ! j)" by (simp add: sorted_wrt_iff_nth_less)
    then show ?thesis using p by (rule np_le_trans)
  qed
qed auto

lemma np_order_between:
  "\<not> isnan a \<Longrightarrow> \<not> isnan b \<Longrightarrow>
   (\<not> np_less b u \<and> \<not> np_less u a) = (fle a u \<and> fle u b)"
  by (cases a; cases b; cases u) (auto simp: np_less_def fle_def)

lemma fle_not_nan: "fle a b \<Longrightarrow> \<not> isnan a \<and> \<not> isnan b"
  by (cases a; cases b) (auto simp: fle_def)

lemma cut_rows_filter:
  assumes srt: "sorted_wrt (\<lambda>u v. \<not> np_less v u) (map fst rows)" and ab: "fle a b"
  shows "drop (searchsorted_left (map fst rows) a) (take (searchsorted_right (map fst rows) b) rows)
           = filter (\<lambda>(u, v). fle a u \<and> fle u b) rows"
proof -
  let ?i = "searchsorted_left (map fst rows) a" and ?j = "searchsorted_right (map fst rows) b"
  let ?P = "\<lambda>r. \<not> np_less b (fst r)" and ?Q = "\<lambda>r. \<not> np_less (fst r) a"
  note L = searchsorted_left_partition[OF srt, of a]
  note R = searchsorted_right_partition[OF srt, of b]
  have tk: "filter ?P rows = take ?j rows"
  proof (rule filter_take_partition)
    show "?j \<le> length rows" using R by simp
    show "\<forall>k<?j. \<not> np_less b (fst (rows ! k))" using R by auto
    show "\<forall>k. ?j \<le> k \<and> k < length rows \<longrightarrow> \<not> \<not> np_less b (fst (rows ! k))"
      using R by auto
  qed
  have dr: "filter ?Q (take ?j rows) = drop ?i (take ?j rows)"
  proof (rule filter_drop_partition)
    show "\<forall>k<?i. k < length (take ?j rows) \<longrightarrow> \<not> \<not> np_less (fst (take ?j rows ! k)) a"
      using L by auto
    show "\<forall>k. ?i \<le> k \<and> k < length (take ?j rows) \<longrightarrow> \<not> np_less (fst (take ?j rows ! k)) a"
      using L by auto
  qed
  from ab have nn: "\<not> isnan a" "\<not> isnan b" using fle_not_nan by blast+
  have "drop ?i (take ?j rows) = filter ?Q (filter ?P rows)" by (simp only: tk dr)
  also have "\<dots> = filter (\<lambda>r. ?P r \<and> ?Q r) rows" by (simp add: conj_commute)
  also have "\<dots> = filter (\<lambda>(u, v). fle a u \<and> fle u b) rows"
    by (rule filter_cong) (auto simp: np_order_between[OF nn])
  finally show ?thesis .
qed

text \<open>
  C8. For a well-formed container whose \<open>x\<close> is ascending: \<^verbatim>\<open>x_cut(a, b)\<close> with
  \<open>a > b\<close> raises a \<open>RangeError\<close>; with \<open>a \<le> b\<close> it returns the container of exactly
  the rows with \<open>a \<le> x \<le> b\<close>, in their order; and it returns the container itself
  when every \<open>x\<close> lies in \<open>[a, b]\<close>.
\<close>

theorem x_cut_rows:
  assumes inv: "invariant d" and asc: "ascending (data_x d)"
  shows "(fgt a b \<longrightarrow> (\<exists>e. x_cut d a b = Inl e \<and> is_RangeError e))
       \<and> (fle a b \<longrightarrow>
            x_cut d a b = Inr (set_attributes (matrix2
              (filter (\<lambda>(u, v). fle a u \<and> fle u b) (rows_of (data_values d))))))
       \<and> (fle a b \<and> (\<forall>u \<in> set (data_x d). fle a u \<and> fle u b) \<longrightarrow> x_cut d a b = Inr d)"
proof -
  let ?rows = "rows_of (data_values d)"
  have x: "data_x d = map fst ?rows" using inv by (simp add: invariant_def col0_def)
  have srt: "sorted_wrt (\<lambda>u v. \<not> np_less v u) (map fst ?rows)"
    using ascending_np_sorted[OF asc] by (simp add: x)
  have gt: "fgt a b \<longrightarrow> (\<exists>e. x_cut d a b = Inl e \<and> is_RangeError e)"
    by (simp add: x_cut_def)
  have not_gt: "fle a b \<Longrightarrow> \<not> fgt a b" for a b
    by (cases a; cases b) (auto simp: fle_def fgt_def)
  have cut: "x_cut d a b = Inr (set_attributes (matrix2
              (filter (\<lambda>(u, v). fle a u \<and> fle u b) ?rows)))" if ab: "fle a b"
    using not_gt[OF ab] cut_rows_filter[OF srt ab]
    by (simp add: x_cut_def row_slice_def x)
  have full: "x_cut d a b = Inr d"
    if ab: "fle a b" and all: "\<forall>u \<in> set (data_x d). fle a u \<and> fle u b"
  proof -
    have "filter (\<lambda>(u, v). fle a u \<and> fle u b) ?rows = ?rows"
      using all by (auto simp: filter_id_conv x)
    then show ?thesis using cut[OF ab] invariant_rows(2,3)[OF inv] by simp
  qed
  from gt cut full show ?thesis by blast
qed

theorem x_cut_rows_witness:
  "invariant example_cut \<and> ascending (data_x example_cut)
   \<and> fgt (Fin 2) (Fin 1)
   \<and> (\<exists>e. x_cut example_cut (Fin 2) (Fin 1) = Inl e \<and> is_RangeError e)
   \<and> fle (Fin 1) (Fin 2)
   \<and> x_cut example_cut (Fin 1) (Fin 2)
       = Inr (set_attributes (matrix2 [(Fin 1, Fin 1), (Fin 2, Fin 3), (Fin 2, Fin 4)]))
   \<and> fle (Fin 0) (Fin 3)
   \<and> x_cut example_cut (Fin 0) (Fin 3) = Inr example_cut"
proof -
  have inv: "invariant example_cut" by (simp add: example_cut_def)
  have asc: "ascending (data_x example_cut)"
    by (simp add: example_cut_def ascending_def fle_def)
  have g: "fgt (Fin 2) (Fin 1)" and l: "fle (Fin 1) (Fin 2)" and l': "fle (Fin 0) (Fin 3)"
    by (simp_all add: fgt_def fle_def)
  have all: "\<forall>u \<in> set (data_x example_cut). fle (Fin 0) u \<and> fle u (Fin 3)"
    by (simp add: example_cut_def fle_def)
  have rows: "filter (\<lambda>(u, v). fle (Fin 1) u \<and> fle u (Fin 2)) (rows_of (data_values example_cut))
               = [(Fin 1, Fin 1), (Fin 2, Fin 3), (Fin 2, Fin 4)]"
    by (simp add: example_cut_def fle_def)
  from x_cut_rows [OF inv asc, of "Fin 2" "Fin 1"] g
  have 1: "\<exists>e. x_cut example_cut (Fin 2) (Fin 1) = Inl e \<and> is_RangeError e" by blast
  from x_cut_rows [OF inv asc, of "Fin 1" "Fin 2"] l rows
  have 2: "x_cut example_cut (Fin 1) (Fin 2)
       = Inr (set_attributes (matrix2 [(Fin 1, Fin 1), (Fin 2, Fin 3), (Fin 2, Fin 4)]))"
    by simp
  from x_cut_rows [OF inv asc, of "Fin 0" "Fin 3"] l' all
  have 3: "x_cut example_cut (Fin 0) (Fin 3) = Inr example_cut" by blast
  from inv asc g l l' 1 2 3 show ?thesis by blast
qed

section \<open>Point lookup\<close>










lemma np_min_max_nonempty:
  "vs \<noteq> [] \<Longrightarrow> \<exists>lo hi. np_min vs = Inr lo \<and> np_max vs = Inr hi"
  by (cases vs) (simp_all add: np_min_def np_max_def)













lemma no_kwargs_fields:
  "kw_other (no_kwargs\<lparr>kw_bounds_error := b, kw_fill_value := f\<rparr>) = []"
  "kw_kind (no_kwargs\<lparr>kw_bounds_error := b, kw_fill_value := f\<rparr>) = None"
  "kw_axis (no_kwargs\<lparr>kw_bounds_error := b, kw_fill_value := f\<rparr>) = None"
  "kw_assume_sorted (no_kwargs\<lparr>kw_bounds_error := b, kw_fill_value := f\<rparr>) = None"
  "kw_bounds_error (no_kwargs\<lparr>kw_bounds_error := b, kw_fill_value := f\<rparr>) = b"
  "kw_fill_value (no_kwargs\<lparr>kw_bounds_error := b, kw_fill_value := f\<rparr>) = f"
  by (simp_all add: no_kwargs_def)

lemma interp_min_max_fill_sorted:
  assumes "length (data_y d) = length (data_x d)" "data_x d \<noteq> []"
    and "np_min (data_y d) = Inr y_lo" "np_max (data_y d) = Inr y_hi"
  shows "interp_min_max_fill d qs =
     Inr (map (\<lambda>q. if flt q (fst (hd (sorted_samples (data_x d) (data_y d)))) then y_lo
                    else if flt (fst (last (sorted_samples (data_x d) (data_y d)))) q then y_hi
                    else np_interp (sorted_samples (data_x d) (data_y d)) q) qs)"
  using assms
  by (simp add: interp_min_max_fill_def interp1d_def interp1d_linear_def no_kwargs_fields
      fill_pair_def Let_def)












section \<open>Resampling on a given range\<close>

lemma interp_range_valid:
  assumes xlo: "np_min (data_x d) = Inr xlo" "\<not> fgt xlo lo"
    and xhi: "np_max (data_x d) = Inr xhi" "\<not> flt xhi hi"
    and grid: "arange lo hi st = Inr grid"
    and len: "length (data_y d) = length (data_x d)"
  shows "\<exists>y_lo y_hi. np_min (data_y d) = Inr y_lo \<and> np_max (data_y d) = Inr y_hi \<and>
     interp_range d lo hi st kw =
       Inr (set_attributes (matrix2 (zip grid
         (map (\<lambda>q. if flt q (fst (hd (sorted_samples (data_x d) (data_y d)))) then y_lo
                    else if flt (fst (last (sorted_samples (data_x d) (data_y d)))) q then y_hi
                    else np_interp (sorted_samples (data_x d) (data_y d)) q) grid))))"
proof -
  from xlo(1) have ne: "data_x d \<noteq> []" by (auto simp: np_min_def)
  with len have "data_y d \<noteq> []" by auto
  from np_min_max_nonempty[OF this] obtain y_lo y_hi where
    y: "np_min (data_y d) = Inr y_lo" "np_max (data_y d) = Inr y_hi" by blast
  note fill = interp_min_max_fill_sorted[OF len ne y, of grid]
  have "interp_range d lo hi st kw =
       Inr (set_attributes (matrix2 (zip grid
         (map (\<lambda>q. if flt q (fst (hd (sorted_samples (data_x d) (data_y d)))) then y_lo
                    else if flt (fst (last (sorted_samples (data_x d) (data_y d)))) q then y_hi
                    else np_interp (sorted_samples (data_x d) (data_y d)) q) grid))))"
    using xlo xhi grid by (simp add: interp_range_def fill Data2_array1)
  with y show ?thesis by blast
qed

lemma interp_range_returned:
  assumes r: "interp_range d lo hi st kw = Inr d'"
  shows "\<exists>xlo xhi grid. np_min (data_x d) = Inr xlo \<and> \<not> fgt xlo lo \<and>
           np_max (data_x d) = Inr xhi \<and> \<not> flt xhi hi \<and> arange lo hi st = Inr grid \<and>
           length (data_y d) = length (data_x d)"
proof -
  from r obtain xlo where xlo: "np_min (data_x d) = Inr xlo" "\<not> fgt xlo lo"
    by (auto simp: interp_range_def split: sum.splits if_splits)
  from r xlo obtain xhi where xhi: "np_max (data_x d) = Inr xhi" "\<not> flt xhi hi"
    by (auto simp: interp_range_def split: sum.splits if_splits)
  from r xlo xhi obtain grid where grid: "arange lo hi st = Inr grid"
    by (auto simp: interp_range_def split: sum.splits if_splits)
  from r xlo xhi grid obtain ys where ys: "interp_min_max_fill d grid = Inr ys"
    by (auto simp: interp_range_def split: sum.splits if_splits)
  then have "length (data_y d) = length (data_x d)"
    by (auto simp: interp_min_max_fill_def interp1d_def interp1d_linear_def no_kwargs_fields
        split: sum.splits if_splits)
  with xlo xhi grid show ?thesis by blast
qed


text \<open>
  C10. \<^verbatim>\<open>interp_range\<close> and \<^verbatim>\<open>to_range\<close> accept keyword arguments and pass none of
  them on. Two calls that differ only in the keyword arguments give the same result,
  and the two methods compute the same container. Whenever the smallest \<open>x\<close> is not
  above \<open>min_x\<close>, the largest \<open>x\<close> is not below \<open>max_x\<close>, \<^verbatim>\<open>arange(min_x, max_x, step)\<close>
  is a grid and the columns have one length, the call returns, whatever the keyword
  arguments are: the interpolation with \<^verbatim>\<open>bounds_error=False\<close> and the fill values
  (minimum of \<open>y\<close>, maximum of \<open>y\<close>) raises on no grid point, and the container holds
  the grid and, for a grid point below the smallest sample the minimum of \<open>y\<close>, for one
  above the largest sample the maximum of \<open>y\<close>, and for every other one the value of
  \<^verbatim>\<open>np.interp\<close> on the sorted samples. No other call returns a container.
\<close>

theorem range_resample_ignores_kwargs:
  "interp_range d lo hi st kw = interp_range d lo hi st kw'
   \<and> to_range d lo hi st kw = to_range d lo hi st kw'
   \<and> to_range d lo hi st kw = interp_range d lo hi st kw
   \<and> (\<forall>xlo xhi grid.
        np_min (data_x d) = Inr xlo \<and> \<not> fgt xlo lo \<and>
        np_max (data_x d) = Inr xhi \<and> \<not> flt xhi hi \<and>
        arange lo hi st = Inr grid \<and> length (data_y d) = length (data_x d) \<longrightarrow>
        (\<exists>y_lo y_hi.
           np_min (data_y d) = Inr y_lo \<and> np_max (data_y d) = Inr y_hi \<and>
           interp1d (data_x d) (data_y d)
             (no_kwargs\<lparr>kw_bounds_error := Some False,
                kw_fill_value := Some (Fill_below_above y_lo y_hi)\<rparr>) grid
             = Inr (map (\<lambda>q. if flt q (fst (hd (sorted_samples (data_x d) (data_y d)))) then y_lo
                    else if flt (fst (last (sorted_samples (data_x d) (data_y d)))) q then y_hi
                    else np_interp (sorted_samples (data_x d) (data_y d)) q) grid) \<and>
           interp_range d lo hi st kw =
             Inr (set_attributes (matrix2 (zip grid
               (map (\<lambda>q. if flt q (fst (hd (sorted_samples (data_x d) (data_y d)))) then y_lo
                    else if flt (fst (last (sorted_samples (data_x d) (data_y d)))) q then y_hi
                    else np_interp (sorted_samples (data_x d) (data_y d)) q) grid))))))
   \<and> (\<forall>d'. interp_range d lo hi st kw = Inr d' \<longrightarrow>
        (\<exists>xlo xhi grid.
           np_min (data_x d) = Inr xlo \<and> \<not> fgt xlo lo \<and>
           np_max (data_x d) = Inr xhi \<and> \<not> flt xhi hi \<and>
           arange lo hi st = Inr grid \<and> length (data_y d) = length (data_x d)))"
proof (intro conjI allI impI)
  show "interp_range d lo hi st kw = interp_range d lo hi st kw'"
    by (simp add: interp_range_def)
  show "to_range d lo hi st kw = to_range d lo hi st kw'"
    by (simp add: to_range_def)
  show "to_range d lo hi st kw = interp_range d lo hi st kw"
    by (simp add: to_range_def interp_range_def)
next
  fix xlo xhi grid
  assume a: "np_min (data_x d) = Inr xlo \<and> \<not> fgt xlo lo \<and>
        np_max (data_x d) = Inr xhi \<and> \<not> flt xhi hi \<and>
        arange lo hi st = Inr grid \<and> length (data_y d) = length (data_x d)"
  then have xlo: "np_min (data_x d) = Inr xlo" "\<not> fgt xlo lo"
    and xhi: "np_max (data_x d) = Inr xhi" "\<not> flt xhi hi"
    and grid: "arange lo hi st = Inr grid"
    and len: "length (data_y d) = length (data_x d)" by simp_all
  from interp_range_valid[OF xlo xhi grid len, of kw] obtain y_lo y_hi where
    y: "np_min (data_y d) = Inr y_lo" "np_max (data_y d) = Inr y_hi"
    and r: "interp_range d lo hi st kw =
       Inr (set_attributes (matrix2 (zip grid
         (map (\<lambda>q. if flt q (fst (hd (sorted_samples (data_x d) (data_y d)))) then y_lo
                    else if flt (fst (last (sorted_samples (data_x d) (data_y d)))) q then y_hi
                    else np_interp (sorted_samples (data_x d) (data_y d)) q) grid))))"
    by blast
  from xlo(1) have ne: "data_x d \<noteq> []" by (auto simp: np_min_def)
  have i: "interp1d (data_x d) (data_y d)
             (no_kwargs\<lparr>kw_bounds_error := Some False,
                kw_fill_value := Some (Fill_below_above y_lo y_hi)\<rparr>) grid
             = Inr (map (\<lambda>q. if flt q (fst (hd (sorted_samples (data_x d) (data_y d)))) then y_lo
                    else if flt (fst (last (sorted_samples (data_x d) (data_y d)))) q then y_hi
                    else np_interp (sorted_samples (data_x d) (data_y d)) q) grid)"
    using interp_min_max_fill_sorted[OF len ne y, of grid] y
    by (simp add: interp_min_max_fill_def)
  show "\<exists>y_lo y_hi.
           np_min (data_y d) = Inr y_lo \<and> np_max (data_y d) = Inr y_hi \<and>
           interp1d (data_x d) (data_y d)
             (no_kwargs\<lparr>kw_bounds_error := Some False,
                kw_fill_value := Some (Fill_below_above y_lo y_hi)\<rparr>) grid
             = Inr (map (\<lambda>q. if flt q (fst (hd (sorted_samples (data_x d) (data_y d)))) then y_lo
                    else if flt (fst (last (sorted_samples (data_x d) (data_y d)))) q then y_hi
                    else np_interp (sorted_samples (data_x d) (data_y d)) q) grid) \<and>
           interp_range d lo hi st kw =
             Inr (set_attributes (matrix2 (zip grid
               (map (\<lambda>q. if flt q (fst (hd (sorted_samples (data_x d) (data_y d)))) then y_lo
                    else if flt (fst (last (sorted_samples (data_x d) (data_y d)))) q then y_hi
                    else np_interp (sorted_samples (data_x d) (data_y d)) q) grid))))"
    by (rule exI[of _ y_lo], rule exI[of _ y_hi]) (intro conjI y i r)
next
  fix d'
  assume "interp_range d lo hi st kw = Inr d'"
  then show "\<exists>xlo xhi grid.
           np_min (data_x d) = Inr xlo \<and> \<not> fgt xlo lo \<and>
           np_max (data_x d) = Inr xhi \<and> \<not> flt xhi hi \<and>
           arange lo hi st = Inr grid \<and> length (data_y d) = length (data_x d)"
    by (rule interp_range_returned)
qed

theorem range_resample_ignores_kwargs_witness:
  "np_min (data_x example_dip) = Inr (Fin 0) \<and> \<not> fgt (Fin 0) (Fin 10)
   \<and> np_max (data_x example_dip) = Inr (Fin 2) \<and> \<not> flt (Fin 2) (Fin 0)
   \<and> arange (Fin 10) (Fin 0) (Fin (- 1))
       = Inr [Fin 10, Fin 9, Fin 8, Fin 7, Fin 6, Fin 5, Fin 4, Fin 3, Fin 2, Fin 1]
   \<and> length (data_y example_dip) = length (data_x example_dip)
   \<and> interp_range example_dip (Fin 10) (Fin 0) (Fin (- 1)) example_kwargs
       = Inr (set_attributes (matrix2
           [(Fin 10, Fin 5), (Fin 9, Fin 5), (Fin 8, Fin 5), (Fin 7, Fin 5), (Fin 6, Fin 5),
            (Fin 5, Fin 5), (Fin 4, Fin 5), (Fin 3, Fin 5), (Fin 2, Fin 3), (Fin 1, Fin 1)]))
   \<and> to_range example_dip (Fin 10) (Fin 0) (Fin (- 1)) no_kwargs
       = Inr (set_attributes (matrix2
           [(Fin 10, Fin 5), (Fin 9, Fin 5), (Fin 8, Fin 5), (Fin 7, Fin 5), (Fin 6, Fin 5),
            (Fin 5, Fin 5), (Fin 4, Fin 5), (Fin 3, Fin 5), (Fin 2, Fin 3), (Fin 1, Fin 1)]))"
proof -
  let ?grid = "[Fin 10, Fin 9, Fin 8, Fin 7, Fin 6, Fin 5, Fin 4, Fin 3, Fin 2, Fin 1]"
  let ?pts = "sorted_samples (data_x example_dip) (data_y example_dip)"
  have x: "np_min (data_x example_dip) = Inr (Fin 0)" "np_max (data_x example_dip) = Inr (Fin 2)"
    by code_simp+
  have c: "\<not> fgt (Fin 0) (Fin 10)" "\<not> flt (Fin 2) (Fin 0)" by (simp_all add: fgt_def)
  have g: "arange (Fin 10) (Fin 0) (Fin (- 1)) = Inr ?grid" by code_simp
  have l: "length (data_y example_dip) = length (data_x example_dip)"
    by (simp add: example_dip_def)
  have y: "np_min (data_y example_dip) = Inr (Fin 1)" "np_max (data_y example_dip) = Inr (Fin 5)"
    by code_simp+
  note t = range_resample_ignores_kwargs [of example_dip "Fin 10" "Fin 0" "Fin (- 1)"
      example_kwargs no_kwargs]
  note t2 = t [THEN conjunct2, THEN conjunct1]
  note t3 = t [THEN conjunct2, THEN conjunct2, THEN conjunct1]
  note t4 = t [THEN conjunct2, THEN conjunct2, THEN conjunct2, THEN conjunct1]
  from t4 x c g l obtain y_lo y_hi where
    yy: "np_min (data_y example_dip) = Inr y_lo" "np_max (data_y example_dip) = Inr y_hi"
    and r: "interp_range example_dip (Fin 10) (Fin 0) (Fin (- 1)) example_kwargs =
             Inr (set_attributes (matrix2 (zip ?grid
               (map (\<lambda>q. if flt q (fst (hd ?pts)) then y_lo
                    else if flt (fst (last ?pts)) q then y_hi
                    else np_interp ?pts q) ?grid))))"
    by blast
  from yy y have e: "y_lo = Fin 1" "y_hi = Fin 5" by simp_all
  have v: "map (\<lambda>q. if flt q (fst (hd ?pts)) then Fin 1
                    else if flt (fst (last ?pts)) q then Fin 5
                    else np_interp ?pts q) ?grid
           = [Fin 5, Fin 5, Fin 5, Fin 5, Fin 5, Fin 5, Fin 5, Fin 5, Fin 3, Fin 1]"
    by code_simp
  have r': "interp_range example_dip (Fin 10) (Fin 0) (Fin (- 1)) example_kwargs
       = Inr (set_attributes (matrix2
           [(Fin 10, Fin 5), (Fin 9, Fin 5), (Fin 8, Fin 5), (Fin 7, Fin 5), (Fin 6, Fin 5),
            (Fin 5, Fin 5), (Fin 4, Fin 5), (Fin 3, Fin 5), (Fin 2, Fin 3), (Fin 1, Fin 1)]))"
    unfolding r e v by simp
  from t2 t3 have "to_range example_dip (Fin 10) (Fin 0) (Fin (- 1)) no_kwargs
               = interp_range example_dip (Fin 10) (Fin 0) (Fin (- 1)) example_kwargs"
    by (simp only:)
  with r' x c g l show ?thesis by simp
qed

text \<open>A forward grid, with keyword arguments that the interpolation would reject.\<close>

lemma interp_range_forward_example:
  "interp_range example_dip (Fin 0) (Fin 2) (Fin (1 / 2)) example_kwargs
     = Inr (set_attributes (matrix2
         [(Fin 0, Fin 5), (Fin (1 / 2), Fin 3), (Fin 1, Fin 1), (Fin (3 / 2), Fin 2)]))"
  by code_simp

text \<open>The keyword arguments do matter where the source passes them on: the even-grid
  resample rejects the unknown keyword of the example.\<close>

lemma interp_full_depends_on_kwargs:
  "interp_full example_dip (Fin 1) example_kwargs \<noteq> interp_full example_dip (Fin 1) no_kwargs"
  by code_simp

section \<open>The invariant holds of every observable container\<close>

lemma Data2_invariant: "Data2 a b = Inr d \<Longrightarrow> invariant d"
  by (auto simp: Data2_def init_core_def split_mode_def check_two_column_def
      concatenate_columns_def apply_strip_sort_def split: if_splits)

lemma apply_strip_sort_invariant:
  assumes "wf_array a" "ndim a = 2" "shape a ! 1 = 2"
  shows "invariant (set_attributes (apply_strip_sort ss a))"
  using invariant_two_column[OF assms]
  by (cases ss) (simp_all add: apply_strip_sort_def any_finite_rows_def take_rows_def Let_def)

lemma init_core_invariant:
  assumes "init_core v split_y ss = Inr d"
    and "wf_array (case v of PData d0 \<Rightarrow> data_values d0 | PArray a \<Rightarrow> a)"
  shows "invariant d"
proof (cases split_y)
  case None
  with assms show ?thesis
    by (auto simp: init_core_def split_mode_def check_two_column_def Let_def
        intro: apply_strip_sort_invariant split: if_splits)
next
  case (Some sy)
  have wf: "wf_array (concatenate_columns a b)" for a b
    by (simp add: concatenate_columns_def)
  from Some assms(1) show ?thesis
    by (auto simp: init_core_def split_mode_def check_two_column_def Let_def
        intro: apply_strip_sort_invariant wf split: if_splits)
qed

lemma to_even_invariant: "to_even d st kw = Inr d' \<Longrightarrow> invariant d'"
  by (auto simp: to_even_def split: sum.splits dest: Data2_invariant)

lemma Data_init_invariant:
  assumes "Data_init v split_y ss step = Inr d"
    and "wf_array (case v of PData d0 \<Rightarrow> data_values d0 | PArray a \<Rightarrow> a)"
  shows "invariant d"
  using assms
  by (auto simp: Data_init_def split: sum.splits option.splits if_splits
      dest: init_core_invariant to_even_invariant)

lemma Data1_matrix2_invariant: "Data1 (matrix2 rs) = Inr d \<Longrightarrow> invariant d"
  by auto

lemma binop_invariant: "binop f opn d other = Inr d' \<Longrightarrow> invariant d'"
  by (auto simp: binop_def split: sum.splits dest: Data2_invariant)

lemma unary_invariant:
  "abs_data d = Inr d' \<Longrightarrow> invariant d'"
  "neg_data d = Inr d' \<Longrightarrow> invariant d'"
  "pos_data d = Inr d' \<Longrightarrow> invariant d'"
  by (auto simp: abs_data_def neg_data_def pos_data_def split: sum.splits dest: Data2_invariant)

lemma getitem_invariant: "getitem d k = Inr (Rows d') \<Longrightarrow> invariant d'"
  by (auto simp: getitem_def take_rows_def split: sum.splits bool.splits)

lemma subset_invariant:
  "x_cut d a b = Inr d' \<Longrightarrow> invariant d'"
  "strip_nan d = Inr d' \<Longrightarrow> invariant d'"
  "sort_data d = Inr d' \<Longrightarrow> invariant d'"
  by (auto simp: x_cut_def row_slice_def strip_nan_def any_finite_rows_def sort_data_def
      take_rows_def split: if_splits)

lemma resample_invariant:
  "interp_range d lo hi st kw = Inr d' \<Longrightarrow> invariant d'"
  "to_range d lo hi st kw = Inr d' \<Longrightarrow> invariant d'"
  "interp_full d st kw = Inr d' \<Longrightarrow> invariant d'"
  "interp_number d n kw = Inr d' \<Longrightarrow> invariant d'"
  by (auto simp: interp_range_def to_range_def interp_full_def interp_number_def
      split: sum.splits if_splits dest: Data2_invariant)

lemma setter_invariant:
  "set_x d k v = Inr d' \<Longrightarrow> invariant d'"
  "set_y d k v = Inr d' \<Longrightarrow> invariant d'"
  "set_data d k v = Inr d' \<Longrightarrow> invariant d'"
  by (auto simp: set_x_def set_y_def set_data_def np_setitem2_def
      split: sum.splits dest: Data2_invariant)

lemma apply_invariant:
  "apply_x d g = Inr d' \<Longrightarrow> invariant d'"
  "apply_y d g = Inr d' \<Longrightarrow> invariant d'"
  by (auto simp: apply_x_def apply_y_def dest: Data2_invariant)

lemma sum_loop_invariant: "invariant t \<Longrightarrow> sum_loop t ds = Inr d' \<Longrightarrow> invariant d'"
proof (induction ds arbitrary: t)
  case Nil
  then show ?case by simp
next
  case (Cons d ds)
  then show ?case
    by (auto simp: add_data_def split: sum.splits dest: binop_invariant)
qed

lemma sum_data_invariant:
  "\<forall>d \<in> set ds. invariant d \<Longrightarrow> sum_data ds = Inr d' \<Longrightarrow> invariant d'"
  by (cases ds) (auto simp: sum_data_def dest: sum_loop_invariant)

lemma mean_invariant: "mean ds = Inr d' \<Longrightarrow> invariant d'"
  by (auto simp: mean_def truediv_data_def split: sum.splits dest: binop_invariant)

lemma observable_holds_invariant: "observable d \<Longrightarrow> invariant d"
proof (induction rule: observable.induct)
  case (constructed a split_y ss step_size d)
  then show ?case using Data_init_invariant[of "PArray a" split_y ss step_size d] by simp
next
  case (copied d0 split_y ss step_size d)
  then have "wf_array (data_values d0)" by (simp add: invariant_def)
  with copied show ?case using Data_init_invariant[of "PData d0" split_y ss step_size d] by simp
next
  case (summed ds d')
  then show ?case using sum_data_invariant by blast
qed (auto simp: rbinop_def
      dest: binop_invariant unary_invariant getitem_invariant subset_invariant
        resample_invariant to_even_invariant setter_invariant apply_invariant mean_invariant)

text \<open>
  C9. Every container that a construction or a public operation (arithmetic, indexing,
  cutting, stripping, sorting, resampling, the setters, function application, sum and
  mean) returns satisfies the invariant: the backing array has shape \<open>(N, 2)\<close>, \<open>x\<close> is
  its column 0 and \<open>y\<close> its column 1, both of length \<open>N\<close>. And a construction from a
  well-formed array either raises or returns a container that satisfies the
  invariant.
\<close>

theorem observable_invariant:
  "(observable d \<longrightarrow> invariant d)
   \<and> (wf_array a \<longrightarrow>
        (\<exists>e. Data_init (PArray a) split_y ss step_size = Inl e)
        \<or> (\<exists>d'. Data_init (PArray a) split_y ss step_size = Inr d' \<and> invariant d'))"
proof (intro conjI impI)
  assume "observable d"
  then show "invariant d" by (rule observable_holds_invariant)
next
  assume wf: "wf_array a"
  show "(\<exists>e. Data_init (PArray a) split_y ss step_size = Inl e)
        \<or> (\<exists>d'. Data_init (PArray a) split_y ss step_size = Inr d' \<and> invariant d')"
  proof (cases "Data_init (PArray a) split_y ss step_size")
    case (Inl e)
    then show ?thesis by blast
  next
    case (Inr d')
    with wf have "invariant d'" using Data_init_invariant[of "PArray a" split_y ss step_size d']
      by simp
    with Inr show ?thesis by blast
  qed
qed

theorem observable_invariant_witness:
  "observable example_cut \<and> invariant example_cut
   \<and> length (data_x example_cut) = 5 \<and> length (data_y example_cut) = 5
   \<and> shape (data_values example_cut) = [5, 2]
   \<and> wf_array (array1 [Fin 1, Fin 2, Fin 3])
   \<and> Data_init (PArray (array1 [Fin 1, Fin 2, Fin 3])) None SS_False None
       = Inl (ValueError, Not_two_column [3])"
proof -
  let ?a = "matrix2 [(Fin 0, Fin 5), (Fin 1, Fin 1), (Fin 2, Fin 3), (Fin 2, Fin 4),
                     (Fin 3, Fin 3)]"
  have wf: "wf_array ?a" by simp
  have c: "Data_init (PArray ?a) None SS_False None = Inr example_cut"
    by code_simp
  from wf c have ob: "observable example_cut" by (rule observable.constructed)
  note t = observable_invariant [of example_cut "array1 [Fin 1, Fin 2, Fin 3]" None SS_False None]
  from t ob have inv: "invariant example_cut" by blast
  have lx: "length (data_x example_cut) = 5" by (simp add: example_cut_def)
  from inv have sh: "shape (data_values example_cut) = [length (data_x example_cut), 2]"
    unfolding invariant_def by blast
  from inv have ly: "length (data_y example_cut) = length (data_x example_cut)"
    by (rule invariant_lengths)
  have wf3: "wf_array (array1 [Fin 1, Fin 2, Fin 3])" by (simp add: wf_array_def array1_def)
  have r: "Data_init (PArray (array1 [Fin 1, Fin 2, Fin 3])) None SS_False None
       = Inl (ValueError, Not_two_column [3])"
    by code_simp
  from ob inv lx sh ly wf3 r show ?thesis by simp
qed



end
